theory Spec2Isabelle
  imports Complex_Main
begin

section \<open>Python values and errors\<close>

text \<open>
  Every exception the modelled code can raise is a value; a function that can raise
  returns \<open>py_error + 'a\<close> with \<open>Inl\<close> for the exception. An
  \<open>AssertionError\<close> or \<open>TypeError\<close> carries its message: a bare
  \<^verbatim>\<open>assert cond\<close> raises \<open>AssertionError\<close> with the empty message.
\<close>

datatype py_error =
    AssertionError string
  | IndexError
  | TypeError string
  | RuntimeError
  | AttributeError
  | NotImplementedError
  | ValueError

section \<open>Volumes (3D arrays) and basic slicing\<close>

text \<open>
  A 3D numpy array: its shape and the entry at every in-range index. Basic slicing
  \<^verbatim>\<open>a[s0:e0, s1:e1, s2:e2]\<close> follows numpy: a negative bound counts from the end,
  every bound is clipped to the axis, and an empty range has length 0. Nothing is padded.
\<close>

record 'a volume =
  shape :: "nat \<times> nat \<times> nat"
  voxel :: "nat \<Rightarrow> nat \<Rightarrow> nat \<Rightarrow> 'a"

definition slice_index :: "int \<Rightarrow> nat \<Rightarrow> nat" where
  "slice_index i n =
     (if i < 0 then (if i + int n < 0 then 0 else nat (i + int n))
      else if i > int n then n else nat i)"

definition slice_range :: "int \<Rightarrow> int \<Rightarrow> nat \<Rightarrow> nat \<times> nat" where
  "slice_range s e n =
     (let a = slice_index s n; b = slice_index e n in (a, b - a))"

definition crop :: "'a volume \<Rightarrow> int \<times> int \<Rightarrow> int \<times> int \<Rightarrow> int \<times> int \<Rightarrow> 'a volume" where
  "crop v r0 r1 r2 =
     (case shape v of (n0, n1, n2) \<Rightarrow>
        (case (slice_range (fst r0) (snd r0) n0,
               slice_range (fst r1) (snd r1) n1,
               slice_range (fst r2) (snd r2) n2) of
           ((o0, l0), (o1, l1), (o2, l2)) \<Rightarrow>
             \<lparr> shape = (l0, l1, l2),
               voxel = (\<lambda>i j k. voxel v (o0 + i) (o1 + j) (o2 + k)) \<rparr>))"

section \<open>Patch locator and extractor (VSparams)\<close>

text \<open>
  \<^verbatim>\<open>VSparams.get_safe_bounds(c, margin, axis)\<close>: the window size 96 is a local
  constant, \<open>margin\<close> is not read. Python integers are unbounded: \<open>int\<close>.
\<close>

definition get_safe_bounds :: "int \<Rightarrow> int \<Rightarrow> int \<Rightarrow> int \<times> int" where
  "get_safe_bounds c margin axis =
     (let window_size = 96;
          half_window = window_size div 2;
          start0 = max 0 (c - half_window);
          end0 = start0 + window_size;
          (start1, end1) =
             (if end0 > axis then (max 0 (axis - window_size), axis) else (start0, end0));
          start2 = max 0 (min start1 (axis - window_size));
          end2 = start2 + window_size
      in (start2, end2 - 1))"

text \<open>
  \<^verbatim>\<open>VSparams.extract_patch(volume, center, margin=48)\<close>. The three extents are
  unpacked from the shape in order, the bounds are computed per coordinate, and the
  slice is taken as \<^verbatim>\<open>volume[y1:y2+1, x1:x2+1, z1:z2+1]\<close>, as the source writes it.
\<close>

type_synonym bounds = "(int \<times> int) \<times> (int \<times> int) \<times> (int \<times> int)"

definition extract_patch :: "'a volume \<Rightarrow> int \<times> int \<times> int \<Rightarrow> int \<Rightarrow> 'a volume \<times> bounds" where
  "extract_patch v center margin =
     (case shape v of (x_max, y_max, z_max) \<Rightarrow>
      (case center of (x, y, z) \<Rightarrow>
        (let (x1, x2) = get_safe_bounds x margin (int x_max);
             (y1, y2) = get_safe_bounds y margin (int y_max);
             (z1, z2) = get_safe_bounds z margin (int z_max);
             bnds = ((x1, x2), (y1, y2), (z1, z2))
         in (crop v (y1, y2 + 1) (x1, x2 + 1) (z1, z2 + 1), bnds))))"

text \<open>
  The two calls of \<^verbatim>\<open>new_run_inference\<close> (prediction, then label) with the same
  centre and the default margin 48.
\<close>

definition extract_pair ::
  "'a volume \<Rightarrow> 'b volume \<Rightarrow> int \<times> int \<times> int \<Rightarrow> ('a volume \<times> bounds) \<times> ('b volume \<times> bounds)" where
  "extract_pair c label center = (extract_patch c center 48, extract_patch label center 48)"

section \<open>Centre-of-mass slice (VSparams)\<close>

text \<open>
  numpy's \<^verbatim>\<open>round\<close> rounds a value that lies half way between two integers to the
  even one.
\<close>

definition round_half_even :: "real \<Rightarrow> int" where
  "round_half_even x =
     (let f = \<lfloor>x\<rfloor>; d = x - of_int f
      in if d < 1 / 2 then f else if 1 / 2 < d then f + 1
         else if even f then f else f + 1)"

text \<open>
  The float64 arithmetic of numpy is a parameter: \<open>fl x\<close> is the float64 nearest to
  the exact result \<open>x\<close> of an operation, and \<open>array_sum xs\<close> is what
  \<^verbatim>\<open>ndarray.sum()\<close> returns on the entries \<open>xs\<close> of a slice (numpy chooses the order
  of the additions). Values are finite: an overflow to infinity, which needs a label
  that is not zero, is not represented.
\<close>

record float64_ops =
  fl :: "real \<Rightarrow> real"
  array_sum :: "real list \<Rightarrow> real"

text \<open>
  Python's builtin \<^verbatim>\<open>sum\<close>: the additions run from the left, starting from the
  integer 0, each rounded.
\<close>

definition py_sum :: "float64_ops \<Rightarrow> real list \<Rightarrow> real" where
  "py_sum ops xs = foldl (\<lambda>acc v. fl ops (acc + v)) 0 xs"

text \<open>
  \<^verbatim>\<open>VSparams.get_center_of_mass_slice(label)\<close>. \<open>slice_masses\<close> is the loop
  filling \<^verbatim>\<open>slice_masses[z] = label[:, :, z].sum()\<close>, \<open>slice_weights\<close> the
  \<^verbatim>\<open>if sum(slice_masses) == 0\<close> statement with the divisions
  \<^verbatim>\<open>np.ones(num_slices) / num_slices\<close> and \<^verbatim>\<open>slice_masses / sum(slice_masses)\<close>. The
  products \<^verbatim>\<open>slice_weights * np.arange(num_slices)\<close> are summed by the builtin
  \<^verbatim>\<open>sum\<close>: over an empty array it is the integer 0, which has no method
  \<^verbatim>\<open>round\<close>, so the call raises \<open>AttributeError\<close> when there is no slice.
\<close>

definition slice_masses :: "float64_ops \<Rightarrow> real volume \<Rightarrow> real list" where
  "slice_masses ops label =
     (case shape label of (nx, ny, num_slices) \<Rightarrow>
        map (\<lambda>z. array_sum ops
                    (concat (map (\<lambda>i. map (\<lambda>j. voxel label i j z) [0..<ny]) [0..<nx])))
            [0..<num_slices])"

definition slice_weights :: "float64_ops \<Rightarrow> real volume \<Rightarrow> real list" where
  "slice_weights ops label =
     (case shape label of (nx, ny, num_slices) \<Rightarrow>
        (if py_sum ops (slice_masses ops label) = 0
         then map (\<lambda>w. fl ops (w / real num_slices)) (replicate num_slices 1)
         else map (\<lambda>m. fl ops (m / py_sum ops (slice_masses ops label)))
                  (slice_masses ops label)))"

definition get_center_of_mass_slice :: "float64_ops \<Rightarrow> real volume \<Rightarrow> py_error + int" where
  "get_center_of_mass_slice ops label =
     (case shape label of (nx, ny, num_slices) \<Rightarrow>
        (let terms = map2 (\<lambda>w k. fl ops (w * real k)) (slice_weights ops label) [0..<num_slices]
         in if terms = [] then Inl AttributeError
            else Inr (round_half_even (py_sum ops terms))))"

text \<open>
  A fixed-point arithmetic that rounds to the nearest multiple of \<open>1 / 1024\<close>, used
  to run the definitions on an example. On a label of depth 8 every value of the run is
  a multiple of \<open>1 / 8\<close> below 4, which float64 holds exactly as well.
\<close>

definition fixed_point_ops :: float64_ops where
  "fixed_point_ops =
     \<lparr> fl = (\<lambda>x. of_int \<lfloor>x * 1024 + 1 / 2\<rfloor> / 1024), array_sum = sum_list \<rparr>"

section \<open>Network modules (unet2d5\_spvPA)\<close>

text \<open>
  A stride or kernel size is either one integer or a tuple of integers. The blocks of
  the network are recorded with the arguments their constructors are called with, in the
  order of the call; an optional argument the call leaves out is \<open>None\<close>.
  \<open>Convolution\<close>: dimensions, in\_channels, out\_channels, strides, kernel\_size, act, norm,
  dropout, is\_transposed. \<open>ResidualUnit\<close>: dimensions, in\_channels, out\_channels,
  strides, kernel\_size, subunits, act, norm, dropout, last\_conv\_only.
  \<open>AttentionBlock1\<close>, \<open>AttentionBlock2\<close>: dimensions, in\_channels, out\_channels,
  kernel\_size, norm, dropout. \<open>TransformerBottleneck3D\<close>: in\_channels, embed\_dim,
  num\_heads, hidden\_dim.
\<close>

datatype py_size = IntSize int | TupleSize "int list"

datatype layer =
    Convolution int int int py_size py_size string "string option" real "bool option"
  | ResidualUnit int int int py_size py_size int string "string option" real "bool option"
  | AttentionBlock1 int int int py_size "string option" real
  | AttentionBlock2 int int int py_size "string option" real
  | TransformerBottleneck3D int int int int
  | Sequential "layer list"
  | SkipConnection layer

text \<open>
  What a Python expression of the builder can denote: a module instance, or the class
  \<^verbatim>\<open>nn.Identity\<close> itself (the value of the expression \<^verbatim>\<open>nn.Identity\<close> without a
  call).
\<close>

datatype py_object = Module layer | Identity_class

fun is_Module :: "py_object \<Rightarrow> bool" where
  "is_Module (Module l) = True"
| "is_Module Identity_class = False"

fun the_Module :: "py_object \<Rightarrow> layer option" where
  "the_Module (Module l) = Some l"
| "the_Module Identity_class = None"

text \<open>
  \<^verbatim>\<open>nn.Sequential(*args)\<close> registers every argument with \<^verbatim>\<open>add_module\<close>, which
  raises \<open>TypeError\<close> (\<^verbatim>\<open>"... is not a Module subclass"\<close>) for an argument that is
  not an instance of \<^verbatim>\<open>nn.Module\<close>. This is the behaviour of the PyTorch library.
\<close>

definition nn_Sequential :: "py_object list \<Rightarrow> py_error + layer" where
  "nn_Sequential args =
     (if list_all is_Module args then Inr (Sequential (List.map_filter the_Module args))
      else Inl (TypeError ''torch.nn.modules.linear.Identity is not a Module subclass''))"

text \<open>The constructor arguments of \<^verbatim>\<open>UNet2d5_spvPA\<close>, stored on \<^verbatim>\<open>self\<close>.\<close>

record unet_args =
  dimensions :: int
  in_channels :: int
  out_channels :: int
  channels :: "int list"
  strides :: "py_size list"
  kernel_sizes :: "py_size list"
  sample_kernel_sizes :: "py_size list"
  num_res_units :: int
  act_name :: string
  norm_name :: "string option"
  dropout :: real
  attention_module :: bool

text \<open>
  The network object: the stored arguments, the attention map registry
  \<^verbatim>\<open>self.att_maps\<close>, the built \<^verbatim>\<open>self.model\<close>, and whether the forward hook
  \<^verbatim>\<open>hook_save_attention_map\<close> has been registered on the \<open>AttentionBlock1\<close> modules.
\<close>

record 'm UNet2d5_spvPA = unet_args +
  att_maps :: "'m list"
  model :: layer
  att1_hooked :: bool

definition get_att_layer ::
  "'z unet_args_scheme \<Rightarrow> int \<Rightarrow> int \<Rightarrow> py_size \<Rightarrow> py_error + layer" where
  "get_att_layer self inc outc kernel_size =
     (let att1 = AttentionBlock1 (dimensions self) inc outc kernel_size None (dropout self);
          att2 = AttentionBlock2 (dimensions self) inc outc kernel_size None (dropout self)
      in nn_Sequential [Module att1, Module att2])"

definition get_down_layer ::
  "'z unet_args_scheme \<Rightarrow> int \<Rightarrow> int \<Rightarrow> py_size \<Rightarrow> layer" where
  "get_down_layer self inc outc kernel_size =
     (if num_res_units self > 0
      then ResidualUnit (dimensions self) inc outc (IntSize 1) kernel_size (num_res_units self)
             (act_name self) (norm_name self) (dropout self) None
      else Convolution (dimensions self) inc outc (IntSize 1) kernel_size
             (act_name self) (norm_name self) (dropout self) None)"

definition get_downsample_layer ::
  "'z unet_args_scheme \<Rightarrow> int \<Rightarrow> int \<Rightarrow> py_size \<Rightarrow> py_size \<Rightarrow> layer" where
  "get_downsample_layer self inc outc strd kernel_size =
     Convolution (dimensions self) inc outc strd kernel_size
       (act_name self) (norm_name self) (dropout self) (Some False)"

definition get_upsample_layer ::
  "'z unet_args_scheme \<Rightarrow> int \<Rightarrow> int \<Rightarrow> py_size \<Rightarrow> py_size \<Rightarrow> layer" where
  "get_upsample_layer self inc outc strd up_kernel_size =
     Convolution (dimensions self) inc outc strd up_kernel_size
       (act_name self) (norm_name self) (dropout self) (Some True)"

text \<open>
  \<^verbatim>\<open>_get_bottom_layer\<close>: the list \<^verbatim>\<open>modules\<close> holds the attention layer when
  attention is enabled, then the transformer with the literal arguments
  \<^verbatim>\<open>embed_dim=96, num_heads=4, hidden_dim=192\<close>, then the convolution.
\<close>

definition get_bottom_layer ::
  "'z unet_args_scheme \<Rightarrow> int \<Rightarrow> int \<Rightarrow> py_size \<Rightarrow> py_error + layer" where
  "get_bottom_layer self inc outc kernel_size =
     (let conv = get_down_layer self inc outc kernel_size;
          transformer = TransformerBottleneck3D inc 96 4 192
      in if attention_module self
         then (case get_att_layer self inc inc kernel_size of
                 Inl e \<Rightarrow> Inl e
               | Inr att_layer \<Rightarrow>
                   nn_Sequential [Module att_layer, Module transformer, Module conv])
         else nn_Sequential [Module transformer, Module conv])"

text \<open>
  \<^verbatim>\<open>_get_up_layer\<close>. \<open>att_layer\<close> is built when attention is enabled and \<open>ru\<close> when
  \<open>num_res_units > 0\<close>; the four branches of the source follow in its order. The last
  but one returns the expression \<^verbatim>\<open>nn.Identity\<close>.
\<close>

definition get_up_layer ::
  "'z unet_args_scheme \<Rightarrow> int \<Rightarrow> int \<Rightarrow> py_size \<Rightarrow> bool \<Rightarrow> py_error + py_object" where
  "get_up_layer self inc outc kernel_size is_top =
     (let ru = ResidualUnit (dimensions self) inc outc (IntSize 1) kernel_size 1
                 (act_name self) (norm_name self) (dropout self) (Some is_top)
      in if attention_module self \<and> num_res_units self > 0 then
           (case get_att_layer self inc inc kernel_size of
              Inl e \<Rightarrow> Inl e
            | Inr att_layer \<Rightarrow>
                (case nn_Sequential [Module att_layer, Module ru] of
                   Inl e \<Rightarrow> Inl e
                 | Inr m \<Rightarrow> Inr (Module m)))
         else if attention_module self \<and> \<not> num_res_units self > 0 then
           (case get_att_layer self inc inc kernel_size of
              Inl e \<Rightarrow> Inl e
            | Inr att_layer \<Rightarrow> Inr (Module att_layer))
         else if num_res_units self > 0 \<and> \<not> attention_module self then Inr (Module ru)
         else if \<not> attention_module self \<and> \<not> num_res_units self > 0 then Inr Identity_class
         else Inl NotImplementedError)"

text \<open>
  Python indexing \<^verbatim>\<open>xs[i]\<close> for \<open>i \<ge> 0\<close>: \<open>IndexError\<close> out of range.
\<close>

definition py_index :: "'a list \<Rightarrow> nat \<Rightarrow> py_error + 'a" where
  "py_index xs i = (if i < length xs then Inr (xs ! i) else Inl IndexError)"

text \<open>
  \<^verbatim>\<open>_create_block\<close>, the recursive builder. The statements run in the source's order:
  the four \<^verbatim>\<open>[0]\<close> reads, the down and downsample layers, the sub-block (the recursive
  call on the suffixes \<^verbatim>\<open>[1:]\<close> when more than two channel entries are left, the bottom
  layer otherwise), the upsample layer, the inner \<^verbatim>\<open>nn.Sequential\<close>, the up layer and
  the outer \<^verbatim>\<open>nn.Sequential\<close>.
\<close>

function create_block ::
  "'z unet_args_scheme \<Rightarrow> int \<Rightarrow> int \<Rightarrow> int list \<Rightarrow> py_size list \<Rightarrow> py_size list \<Rightarrow> py_size list
     \<Rightarrow> bool \<Rightarrow> py_error + layer" where
  "create_block self inc outc chs strds ks sks is_top =
     (case py_index chs 0 of Inl e \<Rightarrow> Inl e | Inr c \<Rightarrow>
     (case py_index strds 0 of Inl e \<Rightarrow> Inl e | Inr s \<Rightarrow>
     (case py_index ks 0 of Inl e \<Rightarrow> Inl e | Inr k \<Rightarrow>
     (case py_index sks 0 of Inl e \<Rightarrow> Inl e | Inr sk \<Rightarrow>
       (let down = get_down_layer self inc c k;
            downsample = get_downsample_layer self c c s sk
        in (case (if length chs > 2
                  then (case py_index chs 1 of Inl e \<Rightarrow> Inl e | Inr c1 \<Rightarrow>
                          create_block self c c1 (drop 1 chs) (drop 1 strds) (drop 1 ks)
                            (drop 1 sks) False)
                  else (case py_index chs 1 of Inl e \<Rightarrow> Inl e | Inr c1 \<Rightarrow>
                       (case py_index ks 1 of Inl e \<Rightarrow> Inl e | Inr k1 \<Rightarrow>
                          get_bottom_layer self c c1 k1))) of
              Inl e \<Rightarrow> Inl e
            | Inr subblock \<Rightarrow>
               (case py_index chs 1 of Inl e \<Rightarrow> Inl e | Inr c1 \<Rightarrow>
                 (let upsample = get_upsample_layer self c1 c s sk
                  in (case nn_Sequential
                             [Module downsample, Module subblock, Module upsample] of
                        Inl e \<Rightarrow> Inl e
                      | Inr subblock_with_resampling \<Rightarrow>
                         (case get_up_layer self (2 * c) outc k is_top of
                            Inl e \<Rightarrow> Inl e
                          | Inr up \<Rightarrow>
                              nn_Sequential
                                [Module down,
                                 Module (SkipConnection subblock_with_resampling),
                                 up]))))))))))"
  by pat_completeness auto
termination
  by (relation "measure (\<lambda>(self, inc, outc, chs, strds, ks, sks, is_top). length chs)") auto

text \<open>
  \<^verbatim>\<open>UNet2d5_spvPA.__init__\<close>: the bare \<^verbatim>\<open>assert\<close> on the list lengths (a chained
  comparison), the attribute assignments, the call of \<^verbatim>\<open>_create_block\<close>, and the
  registration of the forward hook on every \<open>AttentionBlock1\<close> when attention is enabled.
\<close>

definition UNet2d5_spvPA_init :: "unet_args \<Rightarrow> py_error + 'm UNet2d5_spvPA" where
  "UNet2d5_spvPA_init args =
     (if \<not> (length (channels args) = length (kernel_sizes args)
             \<and> length (kernel_sizes args) = length (strides args) + 1
             \<and> length (strides args) + 1 = length (sample_kernel_sizes args) + 1)
      then Inl (AssertionError [])
      else (case create_block args (in_channels args) (out_channels args) (channels args)
                   (strides args) (kernel_sizes args) (sample_kernel_sizes args) True of
              Inl e \<Rightarrow> Inl e
            | Inr m \<Rightarrow>
                Inr \<lparr> dimensions = dimensions args, in_channels = in_channels args,
                      out_channels = out_channels args, channels = channels args,
                      strides = strides args, kernel_sizes = kernel_sizes args,
                      sample_kernel_sizes = sample_kernel_sizes args,
                      num_res_units = num_res_units args, act_name = act_name args,
                      norm_name = norm_name args, dropout = dropout args,
                      attention_module = attention_module args,
                      att_maps = [], model = m, att1_hooked = attention_module args \<rparr>))"

text \<open>
  \<^verbatim>\<open>hook_save_attention_map(self, module, inp, outp)\<close>; the argument is \<^verbatim>\<open>outp[0]\<close>.
\<close>

definition hook_save_attention_map :: "'m UNet2d5_spvPA \<Rightarrow> 'm \<Rightarrow> 'm UNet2d5_spvPA" where
  "hook_save_attention_map self outp0 =
     (let self1 = (if length (att_maps self) = length (channels self)
                   then self\<lparr>att_maps := []\<rparr> else self)
      in self1\<lparr>att_maps := att_maps self1 @ [outp0]\<rparr>)"

text \<open>
  Evaluating the built model. The forward functions of the library blocks are not part of
  this file: \<open>leaf_forward\<close> gives the output of a block on an input, \<open>cat\<close> is the
  channel concatenation of \<open>SkipConnection\<close>, \<open>item0\<close> is \<^verbatim>\<open>outp[0]\<close>. An evaluation
  that completes returns the output and the forward-hook calls it made, in the order in
  which the modules ran: one call for every \<open>AttentionBlock1\<close> when the hook is
  registered.
\<close>

record ('x, 'm) torch_forward =
  leaf_forward :: "layer \<Rightarrow> 'x \<Rightarrow> 'x"
  cat :: "'x \<Rightarrow> 'x \<Rightarrow> 'x"
  item0 :: "'x \<Rightarrow> 'm"

fun run_module :: "('x, 'm) torch_forward \<Rightarrow> bool \<Rightarrow> layer \<Rightarrow> 'x \<Rightarrow> 'x \<times> 'm list"
  and run_modules :: "('x, 'm) torch_forward \<Rightarrow> bool \<Rightarrow> layer list \<Rightarrow> 'x \<Rightarrow> 'x \<times> 'm list" where
  "run_module t hooked (Sequential ls) x = run_modules t hooked ls x"
| "run_module t hooked (SkipConnection l) x =
     (case run_module t hooked l x of (y, calls) \<Rightarrow> (cat t x y, calls))"
| "run_module t hooked (AttentionBlock1 d i oc k n p) x =
     (let outp = leaf_forward t (AttentionBlock1 d i oc k n p) x
      in (outp, if hooked then [item0 t outp] else []))"
| "run_module t hooked (AttentionBlock2 d i oc k n p) x =
     (leaf_forward t (AttentionBlock2 d i oc k n p) x, [])"
| "run_module t hooked (Convolution d i oc s k a n p tr) x =
     (leaf_forward t (Convolution d i oc s k a n p tr) x, [])"
| "run_module t hooked (ResidualUnit d i oc s k u a n p lc) x =
     (leaf_forward t (ResidualUnit d i oc s k u a n p lc) x, [])"
| "run_module t hooked (TransformerBottleneck3D i e h hid) x =
     (leaf_forward t (TransformerBottleneck3D i e h hid) x, [])"
| "run_modules t hooked [] x = (x, [])"
| "run_modules t hooked (l # ls) x =
     (case run_module t hooked l x of (y, calls) \<Rightarrow>
        (case run_modules t hooked ls y of (z, calls') \<Rightarrow> (z, calls @ calls')))"

text \<open>
  \<^verbatim>\<open>UNet2d5_spvPA.forward\<close>: runs \<^verbatim>\<open>self.model\<close>, the hook calls update the
  registry in order, and the pair of the output and \<^verbatim>\<open>self.att_maps\<close> is returned
  (with the updated object).
\<close>

definition forward ::
  "('x, 'm) torch_forward \<Rightarrow> 'm UNet2d5_spvPA \<Rightarrow> 'x \<Rightarrow> ('x \<times> 'm list) \<times> 'm UNet2d5_spvPA" where
  "forward t self x =
     (case run_module t (att1_hooked self) (model self) x of (y, calls) \<Rightarrow>
        (let self' = foldl hook_save_attention_map self calls
         in ((y, att_maps self'), self')))"

declare create_block.simps [simp del]

text \<open>
  \<^verbatim>\<open>VSparams.set_and_get_model\<close>: the arguments with which the network is constructed
  (\<^verbatim>\<open>Act.PRELU\<close> is the default of \<open>act\<close>, \<^verbatim>\<open>Norm.BATCH\<close> is passed); the attention
  flag is \<^verbatim>\<open>self.attention\<close>.
\<close>

definition set_and_get_model_args :: "bool \<Rightarrow> unet_args" where
  "set_and_get_model_args attention =
     \<lparr> dimensions = 3, in_channels = 1, out_channels = 2,
       channels = [16, 32, 48, 64, 80, 96],
       strides = [TupleSize [2, 2, 1], TupleSize [2, 2, 1], TupleSize [2, 2, 2],
                  TupleSize [2, 2, 2], TupleSize [2, 2, 2]],
       kernel_sizes = [TupleSize [3, 3, 1], TupleSize [3, 3, 1], TupleSize [3, 3, 3],
                       TupleSize [3, 3, 3], TupleSize [3, 3, 3], TupleSize [3, 3, 3]],
       sample_kernel_sizes = [TupleSize [3, 3, 1], TupleSize [3, 3, 1], TupleSize [3, 3, 3],
                              TupleSize [3, 3, 3], TupleSize [3, 3, 3]],
       num_res_units = 2, act_name = ''prelu'', norm_name = Some ''batch'',
       dropout = 1 / 10, attention_module = attention \<rparr>"

text \<open>A configuration with two channel entries, otherwise as above.\<close>

definition two_level_args :: unet_args where
  "two_level_args =
     (set_and_get_model_args True)
       \<lparr> channels := [16, 32], strides := [TupleSize [2, 2, 1]],
         kernel_sizes := [TupleSize [3, 3, 1], TupleSize [3, 3, 3]],
         sample_kernel_sizes := [TupleSize [3, 3, 1]] \<rparr>"

subsection \<open>Observations on a built model\<close>

text \<open>
  \<open>count_att1\<close> counts the \<open>AttentionBlock1\<close> modules of a model (the modules on
  which \<^verbatim>\<open>__init__\<close> registers the hook), \<open>transformer_args\<close> lists the constructor
  arguments of its \<open>TransformerBottleneck3D\<close> modules, both in the order of
  \<^verbatim>\<open>modules()\<close>. \<open>bottom_of\<close> follows the blocks that \<open>create_block\<close> returns,
  \<^verbatim>\<open>Sequential(down, SkipConnection(Sequential(downsample, subblock, upsample)), up)\<close>,
  down to the innermost sub-block.
\<close>

fun count_att1 :: "layer \<Rightarrow> nat" and count_att1s :: "layer list \<Rightarrow> nat" where
  "count_att1 (Sequential ls) = count_att1s ls"
| "count_att1 (SkipConnection l) = count_att1 l"
| "count_att1 (AttentionBlock1 d i oc k n p) = 1"
| "count_att1 (AttentionBlock2 d i oc k n p) = 0"
| "count_att1 (Convolution d i oc s k a n p tr) = 0"
| "count_att1 (ResidualUnit d i oc s k u a n p lc) = 0"
| "count_att1 (TransformerBottleneck3D i e h hid) = 0"
| "count_att1s [] = 0"
| "count_att1s (l # ls) = count_att1 l + count_att1s ls"

fun transformer_args :: "layer \<Rightarrow> (int \<times> int \<times> int \<times> int) list"
  and transformer_args_list :: "layer list \<Rightarrow> (int \<times> int \<times> int \<times> int) list" where
  "transformer_args (Sequential ls) = transformer_args_list ls"
| "transformer_args (SkipConnection l) = transformer_args l"
| "transformer_args (TransformerBottleneck3D i e h hid) = [(i, e, h, hid)]"
| "transformer_args (AttentionBlock1 d i oc k n p) = []"
| "transformer_args (AttentionBlock2 d i oc k n p) = []"
| "transformer_args (Convolution d i oc s k a n p tr) = []"
| "transformer_args (ResidualUnit d i oc s k u a n p lc) = []"
| "transformer_args_list [] = []"
| "transformer_args_list (l # ls) = transformer_args l @ transformer_args_list ls"

fun bottom_of :: "layer \<Rightarrow> layer" where
  "bottom_of (Sequential [down, SkipConnection (Sequential [downsample, subblock, upsample]), up])
     = bottom_of subblock"
| "bottom_of l = l"

text \<open>The module that \<open>get_bottom_layer\<close> assembles, written out.\<close>

definition bottom_block :: "'z unet_args_scheme \<Rightarrow> int \<Rightarrow> int \<Rightarrow> py_size \<Rightarrow> layer" where
  "bottom_block self cin cout k =
     Sequential
       ((if attention_module self
         then [Sequential [AttentionBlock1 (dimensions self) cin cin k None (dropout self),
                           AttentionBlock2 (dimensions self) cin cin k None (dropout self)]]
         else [])
        @ [TransformerBottleneck3D cin 96 4 192, get_down_layer self cin cout k])"

text \<open>
  The state in which an evaluation starts: the hook is registered, the model has one
  \<open>AttentionBlock1\<close> per channel entry, and the registry is empty or holds a full set.
\<close>

definition registry_ready :: "'m UNet2d5_spvPA \<Rightarrow> bool" where
  "registry_ready n =
     (att1_hooked n \<and> count_att1 (model n) = length (channels n)
      \<and> (att_maps n = [] \<or> length (att_maps n) = length (channels n)))"

subsection \<open>Vocabulary of the specification\<close>

text \<open>
  The message of an exception (\<^verbatim>\<open>str(e)\<close>), and whether it names one of the four
  configuration lists. \<open>rounded_to_multiple_of_3 c e\<close>: \<open>e\<close> is \<open>c\<close> rounded to a
  multiple of 3, up or down.
\<close>

fun error_message :: "py_error \<Rightarrow> string" where
  "error_message (AssertionError msg) = msg"
| "error_message (TypeError msg) = msg"
| "error_message IndexError = []"
| "error_message RuntimeError = []"
| "error_message AttributeError = []"
| "error_message NotImplementedError = []"
| "error_message ValueError = []"

fun starts_with :: "string \<Rightarrow> string \<Rightarrow> bool" where
  "starts_with [] s = True"
| "starts_with (p # ps) [] = False"
| "starts_with (p # ps) (c # cs) = (p = c \<and> starts_with ps cs)"

fun mentions :: "string \<Rightarrow> string \<Rightarrow> bool" where
  "mentions [] name = (name = [])"
| "mentions (c # cs) name = (starts_with name (c # cs) \<or> mentions cs name)"

definition names_a_list :: "py_error \<Rightarrow> bool" where
  "names_a_list e =
     list_ex (mentions (error_message e))
       [''channels'', ''kernel_sizes'', ''strides'', ''sample_kernel_sizes'']"

definition rounded_to_multiple_of_3 :: "int \<Rightarrow> int \<Rightarrow> bool" where
  "rounded_to_multiple_of_3 c e = (3 dvd e \<and> \<bar>e - c\<bar> < 3)"

section \<open>Transformer refinement block (unet2d5\_spvPA)\<close>

subsection \<open>Floating-point values\<close>

text \<open>
  The entries of a tensor are float32 values: a finite number, one of the two
  infinities, or NaN. The two zeros are one value, as they are for \<^verbatim>\<open>==\<close>.
\<close>

datatype fval = Finite real | PInf | NInf | NaN

fun is_finite :: "fval \<Rightarrow> bool" where
  "is_finite (Finite r) = True"
| "is_finite v = False"

text \<open>
  The arithmetic of the machine is a parameter: \<open>rnd\<close> sends the exact result of an
  operation on finite values to the float32 value that is returned (a finite one, or an
  infinity on overflow), and \<open>fexp\<close>, \<open>fsin\<close>, \<open>fcos\<close>, \<open>flog\<close> are the library's
  elementary functions.
\<close>

record float32_ops =
  rnd :: "real \<Rightarrow> fval"
  fexp :: "fval \<Rightarrow> fval"
  fsin :: "fval \<Rightarrow> fval"
  fcos :: "fval \<Rightarrow> fval"
  flog :: "fval \<Rightarrow> fval"

text \<open>
  Negation, sum and product by the IEEE 754 rules: NaN is absorbing, the sum of opposite
  infinities and the product of an infinity and zero are NaN, and the result on finite
  operands is the rounded exact result.
\<close>

fun fneg :: "fval \<Rightarrow> fval" where
  "fneg (Finite a) = Finite (- a)"
| "fneg PInf = NInf"
| "fneg NInf = PInf"
| "fneg NaN = NaN"

fun fadd :: "(real \<Rightarrow> fval) \<Rightarrow> fval \<Rightarrow> fval \<Rightarrow> fval" where
  "fadd r (Finite a) (Finite b) = r (a + b)"
| "fadd r NaN b = NaN"
| "fadd r a NaN = NaN"
| "fadd r PInf NInf = NaN"
| "fadd r NInf PInf = NaN"
| "fadd r PInf b = PInf"
| "fadd r a PInf = PInf"
| "fadd r NInf b = NInf"
| "fadd r a NInf = NInf"

fun fmul :: "(real \<Rightarrow> fval) \<Rightarrow> fval \<Rightarrow> fval \<Rightarrow> fval" where
  "fmul r (Finite a) (Finite b) = r (a * b)"
| "fmul r NaN b = NaN"
| "fmul r a NaN = NaN"
| "fmul r (Finite a) PInf = (if a = 0 then NaN else if 0 < a then PInf else NInf)"
| "fmul r (Finite a) NInf = (if a = 0 then NaN else if 0 < a then NInf else PInf)"
| "fmul r PInf (Finite b) = (if b = 0 then NaN else if 0 < b then PInf else NInf)"
| "fmul r NInf (Finite b) = (if b = 0 then NaN else if 0 < b then NInf else PInf)"
| "fmul r PInf PInf = PInf"
| "fmul r PInf NInf = NInf"
| "fmul r NInf PInf = NInf"
| "fmul r NInf NInf = PInf"

text \<open>
  The quotient of a float32 value and a Python \<open>int\<close> that is not negative; the divisor
  0 is the positive zero.
\<close>

fun fdiv_nat :: "(real \<Rightarrow> fval) \<Rightarrow> fval \<Rightarrow> nat \<Rightarrow> fval" where
  "fdiv_nat r (Finite a) n =
     (if n = 0 then (if a = 0 then NaN else if 0 < a then PInf else NInf)
      else r (a / real n))"
| "fdiv_nat r v n = v"

subsection \<open>Tensors\<close>

text \<open>
  A tensor: its shape and its entry at every index (a list of coordinates).
  \<open>unravel_index\<close> and \<open>ravel_index\<close> convert between a row-major position and
  coordinates.
\<close>

record tensor =
  dims :: "nat list"
  elems :: "nat list \<Rightarrow> fval"

fun unravel_index :: "nat list \<Rightarrow> nat \<Rightarrow> nat list" where
  "unravel_index [] n = []"
| "unravel_index (d # ds) n = (n div prod_list ds) # unravel_index ds (n mod prod_list ds)"

fun ravel_index :: "nat list \<Rightarrow> nat list \<Rightarrow> nat" where
  "ravel_index (d # ds) (i # is) = i * prod_list ds + ravel_index ds is"
| "ravel_index ds is = 0"

text \<open>
  The sum of two tensors, as PyTorch computes it: entry by entry when the shapes are
  equal; otherwise the shapes are broadcast from the last axis backwards (an axis of
  extent 1 is repeated), and \<open>RuntimeError\<close> is raised when they do not fit. The first
  argument of \<open>broadcast_dims\<close> and \<open>broadcast_index\<close> is a reversed shape.
\<close>

fun broadcast_dims :: "nat list \<Rightarrow> nat list \<Rightarrow> nat list option" where
  "broadcast_dims [] bs = Some bs"
| "broadcast_dims (a # as) [] = Some (a # as)"
| "broadcast_dims (a # as) (b # bs) =
     (if a = b \<or> b = 1 then map_option ((#) a) (broadcast_dims as bs)
      else if a = 1 then map_option ((#) b) (broadcast_dims as bs)
      else None)"

fun broadcast_index :: "nat list \<Rightarrow> nat list \<Rightarrow> nat list \<Rightarrow> nat list" where
  "broadcast_index (d # ds) (r # rs) (i # is) =
     (if d = r then i else 0) # broadcast_index ds rs is"
| "broadcast_index ds rs is = []"

definition tensor_add :: "float32_ops \<Rightarrow> tensor \<Rightarrow> tensor \<Rightarrow> py_error + tensor" where
  "tensor_add ops a b =
     (if dims a = dims b
      then Inr \<lparr> dims = dims a, elems = (\<lambda>i. fadd (rnd ops) (elems a i) (elems b i)) \<rparr>
      else (case broadcast_dims (rev (dims a)) (rev (dims b)) of
              None \<Rightarrow> Inl RuntimeError
            | Some r \<Rightarrow>
                Inr \<lparr> dims = rev r,
                      elems = (\<lambda>i. fadd (rnd ops)
                                      (elems a (rev (broadcast_index (rev (dims a)) r (rev i))))
                                      (elems b (rev (broadcast_index (rev (dims b)) r (rev i))))) \<rparr>))"

text \<open>The product of a scalar parameter and a tensor.\<close>

definition tensor_scale :: "float32_ops \<Rightarrow> fval \<Rightarrow> tensor \<Rightarrow> tensor" where
  "tensor_scale ops g a = \<lparr> dims = dims a, elems = (\<lambda>i. fmul (rnd ops) g (elems a i)) \<rparr>"

subsection \<open>The module\<close>

text \<open>
  \<^verbatim>\<open>nn.Conv3d(cin, cout, kernel_size=1)\<close> takes a batched input of rank 5 or an
  unbatched one of rank 4; the channel axis must have extent \<open>cin\<close> and every spatial
  extent must be at least the kernel size 1, otherwise \<open>RuntimeError\<close>. The entries of
  the result are what the library computes from the input with the current weight and
  bias, here the function \<open>output\<close>.
\<close>

definition Conv3d_forward ::
  "nat \<Rightarrow> nat \<Rightarrow> (tensor \<Rightarrow> nat list \<Rightarrow> fval) \<Rightarrow> tensor \<Rightarrow> py_error + tensor" where
  "Conv3d_forward cin cout output x =
     (case dims x of
        [b, c, h, w, d] \<Rightarrow>
          (if c = cin \<and> 1 \<le> h \<and> 1 \<le> w \<and> 1 \<le> d
           then Inr \<lparr> dims = [b, cout, h, w, d], elems = output x \<rparr>
           else Inl RuntimeError)
      | [c, h, w, d] \<Rightarrow>
          (if c = cin \<and> 1 \<le> h \<and> 1 \<le> w \<and> 1 \<le> d
           then Inr \<lparr> dims = [cout, h, w, d], elems = output x \<rparr>
           else Inl RuntimeError)
      | _ \<Rightarrow> Inl RuntimeError)"

text \<open>
  \<^verbatim>\<open>x.flatten(2).transpose(1, 2)\<close> on a 5-D tensor, and the way back,
  \<^verbatim>\<open>x.transpose(1, 2).view(B, -1, H, W, D)\<close> on a token tensor of shape
  \<open>[B, H * W * D, E]\<close>. The view raises \<open>RuntimeError\<close> when \<open>B * H * W * D\<close> is 0:
  the extent written \<open>-1\<close> is then not determined.
\<close>

definition flatten_transpose :: "tensor \<Rightarrow> py_error + tensor" where
  "flatten_transpose x =
     (case dims x of
        [b, c, h, w, d] \<Rightarrow>
          Inr \<lparr> dims = [b, h * w * d, c],
                elems = (\<lambda>idx. case idx of
                           [n, t, e] \<Rightarrow> elems x ([n, e] @ unravel_index [h, w, d] t)
                         | _ \<Rightarrow> Finite 0) \<rparr>
      | _ \<Rightarrow> Inl RuntimeError)"

definition transpose_view :: "tensor \<Rightarrow> nat \<Rightarrow> nat \<Rightarrow> nat \<Rightarrow> nat \<Rightarrow> py_error + tensor" where
  "transpose_view x B H W D =
     (case dims x of
        [b, t, e] \<Rightarrow>
          (if b = B \<and> t = H * W * D \<and> 0 < B * H * W * D
           then Inr \<lparr> dims = [B, e, H, W, D],
                      elems = (\<lambda>idx. case idx of
                                 [n, c, i, j, k] \<Rightarrow> elems x [n, ravel_index [H, W, D] [i, j, k], c]
                               | _ \<Rightarrow> Finite 0) \<rparr>
           else Inl RuntimeError)
      | _ \<Rightarrow> Inl RuntimeError)"

text \<open>
  \<^verbatim>\<open>_generate_positional_encoding(H, W, D, embed_dim, device)\<close>: for each of the three
  axes \<open>dim_each = embed_dim // 3\<close> slots, the even ones the sine and the odd ones the
  cosine of the coordinate times \<open>div_term\<close>, which is the exponential of an even number
  \<open>2j\<close> times \<open>-log(10000.0) / dim_each\<close>; every operation is a float32 operation, on
  the integers converted to float32. The result has shape
  \<open>[1, H * W * D, 3 * dim_each]\<close>. The assignment of the cosines raises \<open>RuntimeError\<close>
  when the numbers of odd and of even slots differ and cannot be broadcast (\<open>dim_each\<close>
  odd and not 1).
\<close>

definition generate_positional_encoding ::
  "float32_ops \<Rightarrow> nat \<Rightarrow> nat \<Rightarrow> nat \<Rightarrow> nat \<Rightarrow> py_error + tensor" where
  "generate_positional_encoding ops H W D embed_dim =
     (let N = H * W * D;
          dim_each = embed_dim div 3
      in if odd dim_each \<and> dim_each \<noteq> 1 then Inl RuntimeError
         else Inr \<lparr> dims = [1, N, 3 * dim_each],
                    elems = (\<lambda>idx. case idx of
                               [z, n, e] \<Rightarrow>
                                 (let pos_i = rnd ops (real (unravel_index [H, W, D] n
                                                              ! (e div dim_each)));
                                      s = e mod dim_each;
                                      div_term = fexp ops
                                        (fmul (rnd ops) (rnd ops (real (2 * (s div 2))))
                                           (fdiv_nat (rnd ops)
                                              (fneg (flog ops (rnd ops 10000))) dim_each))
                                  in if even s then fsin ops (fmul (rnd ops) pos_i div_term)
                                     else fcos ops (fmul (rnd ops) pos_i div_term))
                             | _ \<Rightarrow> Finite 0) \<rparr>)"

text \<open>
  The state of a \<open>TransformerBottleneck3D\<close> module: the constructor arguments, the
  scalar \<open>gamma\<close>, \<open>pos_embed\<close>, and the four submodules. These are library modules;
  what each computes from its input with its current weights is the function
  \<open>proj_output\<close>, \<open>attn_output\<close>, \<open>ffn_output\<close>, \<open>deproj_output\<close>. The attention
  layer and the feed-forward network return a tensor of the shape of their input when
  its last axis has extent \<open>embed_dim\<close>; on another input the attention layer fails an
  assertion and the linear layer raises \<open>RuntimeError\<close>.
\<close>

record TransformerBottleneck3D_state =
  tb_in_channels :: nat
  tb_embed_dim :: nat
  tb_num_heads :: nat
  tb_hidden_dim :: nat
  proj_output :: "tensor \<Rightarrow> nat list \<Rightarrow> fval"
  attn_output :: "tensor \<Rightarrow> nat list \<Rightarrow> fval"
  gamma :: fval
  ffn_output :: "tensor \<Rightarrow> nat list \<Rightarrow> fval"
  deproj_output :: "tensor \<Rightarrow> nat list \<Rightarrow> fval"
  pos_embed :: "tensor option"

definition attn_forward :: "TransformerBottleneck3D_state \<Rightarrow> tensor \<Rightarrow> py_error + tensor" where
  "attn_forward self x =
     (case dims x of
        [b, t, e] \<Rightarrow>
          (if e = tb_embed_dim self
           then Inr \<lparr> dims = dims x, elems = attn_output self x \<rparr>
           else Inl (AssertionError ''was expecting embedding dimension of embed_dim''))
      | _ \<Rightarrow> Inl (AssertionError ''query should be unbatched 2D or batched 3D tensor''))"

definition ffn_forward :: "TransformerBottleneck3D_state \<Rightarrow> tensor \<Rightarrow> py_error + tensor" where
  "ffn_forward self x =
     (case dims x of
        [b, t, e] \<Rightarrow>
          (if e = tb_embed_dim self
           then Inr \<lparr> dims = dims x, elems = ffn_output self x \<rparr>
           else Inl RuntimeError)
      | _ \<Rightarrow> Inl RuntimeError)"

text \<open>
  \<^verbatim>\<open>TransformerBottleneck3D.__init__\<close>: the submodules are constructed with their
  initial weights (what they compute is given here as arguments), \<open>gamma\<close> is
  \<^verbatim>\<open>torch.tensor(0.1)\<close>, the float32 value of 0.1, and \<open>pos_embed\<close> is \<open>None\<close>.
\<close>

definition TransformerBottleneck3D_init ::
  "float32_ops \<Rightarrow> nat \<Rightarrow> nat \<Rightarrow> nat \<Rightarrow> nat \<Rightarrow> (tensor \<Rightarrow> nat list \<Rightarrow> fval)
     \<Rightarrow> (tensor \<Rightarrow> nat list \<Rightarrow> fval) \<Rightarrow> (tensor \<Rightarrow> nat list \<Rightarrow> fval)
     \<Rightarrow> (tensor \<Rightarrow> nat list \<Rightarrow> fval) \<Rightarrow> TransformerBottleneck3D_state" where
  "TransformerBottleneck3D_init ops in_chs embed_dim num_heads hidden_dim pr att ff dp =
     \<lparr> tb_in_channels = in_chs, tb_embed_dim = embed_dim, tb_num_heads = num_heads,
       tb_hidden_dim = hidden_dim, proj_output = pr, attn_output = att,
       gamma = rnd ops (1 / 10), ffn_output = ff, deproj_output = dp,
       pos_embed = None \<rparr>"

text \<open>
  \<^verbatim>\<open>TransformerBottleneck3D.forward\<close>, statement by statement. \<open>projected_output\<close>
  is the body up to the assignment of \<^verbatim>\<open>x_out\<close>; the unpacking
  \<^verbatim>\<open>B, C, H, W, D = x_proj.shape\<close> raises \<open>ValueError\<close> for another rank than 5.
  \<open>transformer_forward\<close> is the whole method, ending with
  \<^verbatim>\<open>return x + self.gamma * x_out\<close>.
\<close>

definition projected_output ::
  "float32_ops \<Rightarrow> TransformerBottleneck3D_state \<Rightarrow> tensor \<Rightarrow> py_error + tensor" where
  "projected_output ops self x =
     (case Conv3d_forward (tb_in_channels self) (tb_embed_dim self) (proj_output self) x of
        Inl e \<Rightarrow> Inl e
      | Inr x_proj \<Rightarrow>
     (case dims x_proj of
        [B, C, H, W, D] \<Rightarrow>
         (case flatten_transpose x_proj of Inl e \<Rightarrow> Inl e | Inr x_tokens \<Rightarrow>
         (case generate_positional_encoding ops H W D (last (dims x_tokens)) of
            Inl e \<Rightarrow> Inl e
          | Inr pos \<Rightarrow>
         (case tensor_add ops x_tokens pos of Inl e \<Rightarrow> Inl e | Inr x_tokens1 \<Rightarrow>
         (case attn_forward self x_tokens1 of Inl e \<Rightarrow> Inl e | Inr x2 \<Rightarrow>
         (case tensor_add ops x_tokens1 x2 of Inl e \<Rightarrow> Inl e | Inr x_tokens2 \<Rightarrow>
         (case ffn_forward self x_tokens2 of Inl e \<Rightarrow> Inl e | Inr f \<Rightarrow>
         (case tensor_add ops x_tokens2 f of Inl e \<Rightarrow> Inl e | Inr x_tokens3 \<Rightarrow>
         (case transpose_view x_tokens3 B H W D of Inl e \<Rightarrow> Inl e | Inr x_tokens4 \<Rightarrow>
            Conv3d_forward (tb_embed_dim self) (tb_in_channels self) (deproj_output self)
              x_tokens4))))))))
      | _ \<Rightarrow> Inl ValueError))"

definition transformer_forward ::
  "float32_ops \<Rightarrow> TransformerBottleneck3D_state \<Rightarrow> tensor \<Rightarrow> py_error + tensor" where
  "transformer_forward ops self x =
     (case projected_output ops self x of
        Inl e \<Rightarrow> Inl e
      | Inr x_out \<Rightarrow> tensor_add ops x (tensor_scale ops (gamma self) x_out))"

subsection \<open>A concrete arithmetic and concrete convolutions\<close>

text \<open>
  An arithmetic with the range of float32 and no rounding inside it: a result whose
  magnitude reaches \<open>2^128 - 2^103\<close>, where round-to-nearest overflows, is an infinity,
  and every other result is kept. The elementary functions are the exact ones, with the
  IEEE values at the infinities and outside their domain.
\<close>

definition overflow_rnd :: "real \<Rightarrow> fval" where
  "overflow_rnd r =
     (if 2 ^ 128 - 2 ^ 103 \<le> r then PInf
      else if r \<le> - (2 ^ 128 - 2 ^ 103) then NInf
      else Finite r)"

fun exact_exp :: "fval \<Rightarrow> fval" where
  "exact_exp (Finite r) = overflow_rnd (exp r)"
| "exact_exp PInf = PInf"
| "exact_exp NInf = Finite 0"
| "exact_exp NaN = NaN"

fun exact_sin :: "fval \<Rightarrow> fval" where
  "exact_sin (Finite r) = Finite (sin r)"
| "exact_sin v = NaN"

fun exact_cos :: "fval \<Rightarrow> fval" where
  "exact_cos (Finite r) = Finite (cos r)"
| "exact_cos v = NaN"

fun exact_log :: "fval \<Rightarrow> fval" where
  "exact_log (Finite r) = (if r < 0 then NaN else if r = 0 then NInf else Finite (ln r))"
| "exact_log PInf = PInf"
| "exact_log v = NaN"

definition range_ops :: float32_ops where
  "range_ops = \<lparr> rnd = overflow_rnd, fexp = exact_exp, fsin = exact_sin, fcos = exact_cos,
                 flog = exact_log \<rparr>"

text \<open>
  One way in which a 1x1x1 convolution with the weight \<open>weight\<close> and the bias \<open>bias\<close>
  computes an entry of its result: the bias, plus the products of the weights and the
  input channels at the same position, in the order of the channels.
\<close>

definition conv_pointwise ::
  "float32_ops \<Rightarrow> (nat \<Rightarrow> nat \<Rightarrow> real) \<Rightarrow> (nat \<Rightarrow> real) \<Rightarrow> nat \<Rightarrow> tensor \<Rightarrow> nat list \<Rightarrow> fval" where
  "conv_pointwise ops weight bias cin x idx =
     (case idx of
        [n, oc, i, j, k] \<Rightarrow>
          foldl (fadd (rnd ops)) (Finite (bias oc))
            (map (\<lambda>ci. fmul (rnd ops) (Finite (weight oc ci)) (elems x [n, ci, i, j, k]))
               [0..<cin])
      | _ \<Rightarrow> Finite 0)"

text \<open>
  A block with one input channel and embedding dimension 6 whose convolutions have the
  weights 4 and 1 and no bias, with \<open>gamma\<close> set to 0, and an input with the single
  entry \<open>2^127\<close>, a float32 number. What the attention layer and the feed-forward
  network compute is left open.
\<close>

definition overflow_block ::
  "(tensor \<Rightarrow> nat list \<Rightarrow> fval) \<Rightarrow> (tensor \<Rightarrow> nat list \<Rightarrow> fval) \<Rightarrow> TransformerBottleneck3D_state" where
  "overflow_block att ff =
     (TransformerBottleneck3D_init range_ops 1 6 2 12
        (conv_pointwise range_ops (\<lambda>oc ci. 4) (\<lambda>oc. 0) 1) att ff
        (conv_pointwise range_ops (\<lambda>oc ci. 1) (\<lambda>oc. 0) 6)) \<lparr> gamma := Finite 0 \<rparr>"

definition large_input :: tensor where
  "large_input = \<lparr> dims = [1, 1, 1, 1, 1], elems = (\<lambda>idx. Finite (2 ^ 127)) \<rparr>"

section \<open>Loading the trained state (VSparams)\<close>

text \<open>
  A state dictionary lists parameter names with the shape and the entries (in row-major
  order) of the parameter, in the order of the dictionary. The following is
  \<^verbatim>\<open>model.load_state_dict(state_dict, strict)\<close> of the PyTorch library, on a model
  whose own parameters are \<open>own\<close>.

  \<open>copy_params\<close> is the loop over the model's parameters: a name that
  \<open>state_dict\<close> lacks is skipped; a 1-D tensor offered to a parameter of shape \<open>[]\<close>
  is replaced by its first entry (\<open>IndexError\<close>, raised at once, when it has none);
  then a tensor of another shape than the parameter is recorded as a size mismatch and
  skipped, and a tensor of the same shape is copied into the parameter. The result is
  the parameters after the loop, the names with a size mismatch and the exception that
  ended the loop, if any.

  After the loop \<open>load_state_dict\<close> raises \<open>RuntimeError\<close> when a size mismatch was
  recorded, or when \<open>strict\<close> holds and a name is missing or unexpected. The model has
  been changed by the loop in either case: the result is the model's parameters after
  the call and the exception raised, if any.
\<close>

type_synonym 'a state_dict = "(string \<times> nat list \<times> 'a list) list"

fun copy_params ::
  "'a state_dict \<Rightarrow> 'a state_dict \<Rightarrow> 'a state_dict \<times> string list \<times> py_error option" where
  "copy_params [] state_dict = ([], [], None)"
| "copy_params ((k, shp, v) # rest) state_dict =
     (case map_of state_dict k of
        None \<Rightarrow>
          (case copy_params rest state_dict of
             (rest', errs, ex) \<Rightarrow> ((k, shp, v) # rest', errs, ex))
      | Some (shp', v') \<Rightarrow>
          (if shp = [] \<and> shp' = [0] then ((k, shp, v) # rest, [], Some IndexError)
           else (let (shp_in, v_in) =
                       (if shp = [] \<and> length shp' = 1 then ([], take 1 v') else (shp', v'))
                 in (case copy_params rest state_dict of
                       (rest', errs, ex) \<Rightarrow>
                         (if shp_in \<noteq> shp then ((k, shp, v) # rest', k # errs, ex)
                          else ((k, shp, v_in) # rest', errs, ex))))))"

definition missing_keys :: "'a state_dict \<Rightarrow> 'a state_dict \<Rightarrow> string list" where
  "missing_keys own state_dict = filter (\<lambda>k. map_of state_dict k = None) (map fst own)"

definition unexpected_keys :: "'a state_dict \<Rightarrow> 'a state_dict \<Rightarrow> string list" where
  "unexpected_keys own state_dict = filter (\<lambda>k. map_of own k = None) (map fst state_dict)"

definition load_state_dict ::
  "'a state_dict \<Rightarrow> 'a state_dict \<Rightarrow> bool \<Rightarrow> 'a state_dict \<times> py_error option" where
  "load_state_dict own state_dict strict =
     (case copy_params own state_dict of
        (own', size_errors, ex) \<Rightarrow>
          (case ex of
             Some e \<Rightarrow> (own', Some e)
           | None \<Rightarrow>
               (if size_errors \<noteq> []
                   \<or> (strict \<and> (missing_keys own state_dict \<noteq> []
                                \<or> unexpected_keys own state_dict \<noteq> []))
                then (own', Some RuntimeError)
                else (own', None))))"

text \<open>
  \<^verbatim>\<open>load_trained_state_of_model\<close> passes \<^verbatim>\<open>strict=False\<close>;
  \<^verbatim>\<open>new_load_trained_state_of_model\<close> leaves \<open>strict\<close> at its default \<open>True\<close>. The
  file read by \<^verbatim>\<open>torch.load\<close> is the argument \<open>state_dict\<close>. Both return the model
  when nothing is raised; the result here is the model's parameters after the call and
  the exception, if any.
\<close>

definition load_trained_state_of_model ::
  "'a state_dict \<Rightarrow> 'a state_dict \<Rightarrow> 'a state_dict \<times> py_error option" where
  "load_trained_state_of_model model_params state_dict = load_state_dict model_params state_dict False"

definition new_load_trained_state_of_model ::
  "'a state_dict \<Rightarrow> 'a state_dict \<Rightarrow> 'a state_dict \<times> py_error option" where
  "new_load_trained_state_of_model model_params state_dict = load_state_dict model_params state_dict True"

text \<open>
  What a load amounts to: \<open>fits shp shp'\<close> says that a tensor of shape \<open>shp'\<close> is
  accepted for a parameter of shape \<open>shp\<close>; \<open>size_mismatches\<close> are the names present
  on both sides whose tensor is not accepted; \<open>loaded\<close> replaces every parameter for
  which \<open>state_dict\<close> has an accepted tensor and keeps the others.
\<close>

definition fits :: "nat list \<Rightarrow> nat list \<Rightarrow> bool" where
  "fits shp shp' = (shp' = shp \<or> (shp = [] \<and> length shp' = 1))"

definition size_mismatches :: "'a state_dict \<Rightarrow> 'a state_dict \<Rightarrow> string list" where
  "size_mismatches own state_dict =
     map fst (filter (\<lambda>(k, shp, v). case map_of state_dict k of
                                       None \<Rightarrow> False
                                     | Some (shp', v') \<Rightarrow> \<not> fits shp shp') own)"

definition loaded :: "'a state_dict \<Rightarrow> 'a state_dict \<Rightarrow> 'a state_dict" where
  "loaded own state_dict =
     map (\<lambda>(k, shp, v). case map_of state_dict k of
                           None \<Rightarrow> (k, shp, v)
                         | Some (shp', v') \<Rightarrow>
                             (if shp = [] \<and> length shp' = 1 then (k, shp, take 1 v')
                              else if shp' = shp then (k, shp, v')
                              else (k, shp, v))) own"

text \<open>No 1-D tensor without entries is offered to a parameter of shape \<open>[]\<close>.\<close>

definition no_empty_scalar_source :: "'a state_dict \<Rightarrow> 'a state_dict \<Rightarrow> bool" where
  "no_empty_scalar_source own state_dict =
     list_all (\<lambda>(k, shp, v). case map_of state_dict k of
                                None \<Rightarrow> True
                              | Some (shp', v') \<Rightarrow> \<not> (shp = [] \<and> shp' = [0])) own"

section \<open>Window bounds\<close>

lemma get_safe_bounds_large:
  "96 \<le> a \<Longrightarrow> get_safe_bounds c m a = (max 0 (min (max 0 (c - 48)) (a - 96)), max 0 (min (max 0 (c - 48)) (a - 96)) + 95)"
  by (auto simp: get_safe_bounds_def Let_def max_def min_def)

text \<open>
  C1. For every centre \<open>c\<close>, every margin and every axis extent \<open>a \<ge> 96\<close>, the pair
  \<open>(start, end)\<close> returned by \<open>get_safe_bounds c margin a\<close> satisfies
  \<open>0 \<le> start\<close>, \<open>end < a\<close> and \<open>end - start + 1 = 96\<close>.
\<close>

theorem get_safe_bounds_in_axis:
  assumes "96 \<le> a"
  shows "0 \<le> fst (get_safe_bounds c margin a)
       \<and> snd (get_safe_bounds c margin a) < a
       \<and> snd (get_safe_bounds c margin a) - fst (get_safe_bounds c margin a) + 1 = 96"
  using assms by (simp add: get_safe_bounds_large)

theorem get_safe_bounds_in_axis_witness:
  "(96::int) \<le> 150
   \<and> get_safe_bounds 140 48 150 = (54, 149)
   \<and> 0 \<le> fst (get_safe_bounds 140 48 150)
   \<and> snd (get_safe_bounds 140 48 150) < 150
   \<and> snd (get_safe_bounds 140 48 150) - fst (get_safe_bounds 140 48 150) + 1 = 96"
proof -
  have h: "(96::int) \<le> 150" by simp
  have v: "get_safe_bounds 140 48 150 = (54, 149)"
    by (simp add: get_safe_bounds_def Let_def)
  from get_safe_bounds_in_axis [OF h, of 140 48] h v show ?thesis by simp
qed

text \<open>
  C10. For every centre \<open>c \<ge> 0\<close>, every margin and every axis extent \<open>a\<close> with
  \<open>0 < a < 96\<close>, \<open>get_safe_bounds c margin a\<close> is exactly \<open>(0, 95)\<close>: the start is
  not negative, the inclusive end 95 is at least \<open>a\<close>, and the slice
  \<^verbatim>\<open>[0:96]\<close> that \<open>extract_patch\<close> takes on an axis of extent \<open>a\<close> has length
  \<open>a\<close>, not 96 (nothing is padded): the patch cut from a volume whose depth axis has
  extent \<open>a\<close> has depth \<open>a\<close>.
\<close>

theorem get_safe_bounds_short_axis:
  assumes "0 \<le> c" and "0 < a" and "a < 96"
  shows "get_safe_bounds c margin a = (0, 95)
       \<and> a \<le> snd (get_safe_bounds c margin a)
       \<and> slice_range (fst (get_safe_bounds c margin a))
            (snd (get_safe_bounds c margin a) + 1) (nat a) = (0, nat a)
       \<and> snd (snd (shape (fst (extract_patch \<lparr> shape = (n0, n1, nat a), voxel = f \<rparr>
                                  (x, y, c) margin)))) = nat a"
proof -
  have b: "get_safe_bounds c margin a = (0, 95)"
    using assms by (auto simp: get_safe_bounds_def Let_def max_def min_def)
  have s: "slice_range 0 96 (nat a) = (0, nat a)"
    using assms by (simp add: slice_range_def slice_index_def Let_def)
  have p: "snd (snd (shape (fst (extract_patch \<lparr> shape = (n0, n1, nat a), voxel = f \<rparr>
                                  (x, y, c) margin)))) = nat a"
    using assms by (simp add: extract_patch_def crop_def Let_def b s split: prod.splits)
  from b s p assms show ?thesis by simp
qed

theorem get_safe_bounds_short_axis_witness:
  "(0::int) \<le> 10 \<and> (0::int) < 50 \<and> (50::int) < 96
   \<and> get_safe_bounds 10 48 50 = (0, 95)
   \<and> (50::int) \<le> snd (get_safe_bounds 10 48 50)
   \<and> slice_range (fst (get_safe_bounds 10 48 50)) (snd (get_safe_bounds 10 48 50) + 1) (nat 50)
       = (0, nat 50)
   \<and> snd (snd (shape (fst (extract_patch \<lparr> shape = (200, 150, nat 50), voxel = (\<lambda>i j k. (0::real)) \<rparr>
                              (120, 30, 10) 48)))) = nat 50"
proof -
  have h: "(0::int) \<le> 10" "(0::int) < 50" "(50::int) < 96" by simp_all
  note t = get_safe_bounds_short_axis [OF h, of 48 200 150 "\<lambda>i j k. (0::real)" 120 30]
  from t have b: "get_safe_bounds 10 48 50 = (0, 95)" by (rule conjunct1)
  from t have s: "slice_range (fst (get_safe_bounds 10 48 50))
      (snd (get_safe_bounds 10 48 50) + 1) (nat 50) = (0, nat 50)" by blast
  from t have p: "snd (snd (shape (fst (extract_patch
      \<lparr> shape = (200, 150, nat 50), voxel = (\<lambda>i j k. (0::real)) \<rparr> (120, 30, 10) 48)))) = nat 50"
    by blast
  from b have l: "(50::int) \<le> snd (get_safe_bounds 10 48 50)" by simp
  from h b l s p show ?thesis by blast
qed

text \<open>
  C9. For a prediction volume and a label volume of the same shape and every centre,
  the two patches that \<open>extract_patch\<close> cuts (as \<^verbatim>\<open>new_run_inference\<close> calls it) have
  the same shape, and the two bounds triples are equal.
\<close>

theorem extract_pair_same_shape:
  assumes "shape c = shape label"
  shows "shape (fst (fst (extract_pair c label center)))
           = shape (fst (snd (extract_pair c label center)))
       \<and> snd (fst (extract_pair c label center)) = snd (snd (extract_pair c label center))"
  using assms
  by (simp add: extract_pair_def extract_patch_def crop_def Let_def split: prod.splits)

theorem extract_pair_same_shape_witness:
  "shape \<lparr> shape = (200, 100, 50), voxel = (\<lambda>i j k. (1::real)) \<rparr>
     = shape \<lparr> shape = (200, 100, 50), voxel = (\<lambda>i j k. (0::nat)) \<rparr>
   \<and> shape (fst (fst (extract_pair \<lparr> shape = (200, 100, 50), voxel = (\<lambda>i j k. (1::real)) \<rparr>
                \<lparr> shape = (200, 100, 50), voxel = (\<lambda>i j k. (0::nat)) \<rparr> (60, 120, 10))))
     = shape (fst (snd (extract_pair \<lparr> shape = (200, 100, 50), voxel = (\<lambda>i j k. (1::real)) \<rparr>
                \<lparr> shape = (200, 100, 50), voxel = (\<lambda>i j k. (0::nat)) \<rparr> (60, 120, 10))))"
proof -
  have h: "shape \<lparr> shape = (200, 100, 50), voxel = (\<lambda>i j k. (1::real)) \<rparr>
     = shape \<lparr> shape = (200, 100, 50), voxel = (\<lambda>i j k. (0::nat)) \<rparr>" by simp
  from extract_pair_same_shape [OF h, of "(60, 120, 10)"] h show ?thesis by simp
qed

section \<open>Centre-of-mass slice of an empty label\<close>

lemma round_half_even_lower: "0 \<le> x \<Longrightarrow> 0 \<le> round_half_even x"
  by (auto simp: round_half_even_def Let_def)

lemma round_half_even_upper: "x \<le> of_int k \<Longrightarrow> round_half_even x \<le> k"
  unfolding round_half_even_def Let_def
  by (auto simp: floor_le_iff le_floor_iff) (linarith+)?

lemma zero_masses:
  assumes "shape label = (nx, ny, n)"
    and "\<forall>i<nx. \<forall>j<ny. \<forall>k<n. voxel label i j k = 0"
    and "\<forall>xs. set xs \<subseteq> {0} \<longrightarrow> array_sum ops xs = 0"
  shows "slice_masses ops label = replicate n 0"
proof -
  have "array_sum ops (concat (map (\<lambda>i. map (\<lambda>j. voxel label i j z) [0..<ny]) [0..<nx])) = 0"
    if z: "z < n" for z
  proof -
    have "set (concat (map (\<lambda>i. map (\<lambda>j. voxel label i j z) [0..<ny]) [0..<nx])) \<subseteq> {0}"
      using assms(2) z by auto
    with assms(3) show ?thesis by blast
  qed
  then have "map (\<lambda>z. array_sum ops
                    (concat (map (\<lambda>i. map (\<lambda>j. voxel label i j z) [0..<ny]) [0..<nx]))) [0..<n]
      = replicate n 0"
    by (intro nth_equalityI) simp_all
  then show ?thesis using assms(1) by (simp add: slice_masses_def)
qed

lemma py_sum_zeros:
  assumes "fl ops 0 = 0"
  shows "py_sum ops (replicate n 0) = 0"
proof -
  have "foldl (\<lambda>acc v. fl ops (acc + v)) 0 (replicate n 0) = 0"
    using assms by (induction n) simp_all
  then show ?thesis by (simp add: py_sum_def)
qed

lemma uniform_weights:
  assumes "shape label = (nx, ny, n)"
    and "\<forall>i<nx. \<forall>j<ny. \<forall>k<n. voxel label i j k = 0"
    and "\<forall>xs. set xs \<subseteq> {0} \<longrightarrow> array_sum ops xs = 0"
    and "fl ops 0 = 0"
  shows "slice_weights ops label = replicate n (fl ops (1 / real n))"
  using assms(1) zero_masses [OF assms(1,2,3)] py_sum_zeros [OF assms(4)]
  by (simp add: slice_weights_def)

lemma uniform_terms:
  "map2 (\<lambda>w k. fl ops (w * real k)) (replicate n c) [0..<n] = map (\<lambda>k. fl ops (c * real k)) [0..<n]"
  by (rule nth_equalityI) simp_all

text \<open>The rounded partial sums stay below the exact sums on a grid on which rounding is exact.\<close>

lemma py_sum_grid_bound:
  assumes mono: "\<forall>x y. x \<le> y \<longrightarrow> fl ops x \<le> fl ops y"
    and exact: "\<forall>m\<le>n * n. fl ops (real m / 2 ^ e) = real m / 2 ^ e"
    and c: "0 \<le> c" "c \<le> 1 / 2 ^ e"
    and m: "m \<le> n"
  shows "0 \<le> py_sum ops (map (\<lambda>k. fl ops (c * real k)) [0..<m])
       \<and> py_sum ops (map (\<lambda>k. fl ops (c * real k)) [0..<m]) \<le> real (\<Sum>k<m. k) / 2 ^ e"
  using m
proof (induction m)
  case 0
  then show ?case by (simp add: py_sum_def)
next
  case (Suc m)
  let ?s = "py_sum ops (map (\<lambda>k. fl ops (c * real k)) [0..<m])"
  from exact have z: "fl ops 0 = 0" by (metis div_0 of_nat_0 zero_le)
  from Suc have IH: "0 \<le> ?s" "?s \<le> real (\<Sum>k<m. k) / 2 ^ e" by simp_all
  have mn: "m \<le> n * n" using Suc.prems by (cases n) auto
  have t0: "0 \<le> fl ops (c * real m)"
    using mono c(1) z by (metis mult_nonneg_nonneg of_nat_0_le_iff)
  have "c * real m \<le> (1 / 2 ^ e) * real m"
    using c(2) by (intro mult_right_mono) simp_all
  then have "c * real m \<le> real m / 2 ^ e" by simp
  then have "fl ops (c * real m) \<le> fl ops (real m / 2 ^ e)" using mono by blast
  moreover from exact mn have "fl ops (real m / 2 ^ e) = real m / 2 ^ e" by blast
  ultimately have t1: "fl ops (c * real m) \<le> real m / 2 ^ e" by (simp only:)
  have sum: "(\<Sum>k<Suc m. k) \<le> n * n"
  proof -
    have "(\<Sum>k<Suc m. k) \<le> (\<Sum>k<Suc m. n)" using Suc.prems by (intro sum_mono) simp
    also have "\<dots> = Suc m * n" by simp
    also have "\<dots> \<le> n * n" using Suc.prems by (intro mult_right_mono) simp_all
    finally show ?thesis .
  qed
  have step: "py_sum ops (map (\<lambda>k. fl ops (c * real k)) [0..<Suc m]) = fl ops (?s + fl ops (c * real m))"
    by (simp add: py_sum_def)
  have lo: "0 \<le> fl ops (?s + fl ops (c * real m))"
    using mono z IH(1) t0 by (metis add_nonneg_nonneg)
  have "?s + fl ops (c * real m) \<le> real (\<Sum>k<Suc m. k) / 2 ^ e"
    using IH(2) t1 by (simp add: add_divide_distrib)
  then have "fl ops (?s + fl ops (c * real m)) \<le> fl ops (real (\<Sum>k<Suc m. k) / 2 ^ e)"
    using mono by blast
  moreover from exact sum
  have "fl ops (real (\<Sum>k<Suc m. k) / 2 ^ e) = real (\<Sum>k<Suc m. k) / 2 ^ e" by blast
  ultimately have hi: "fl ops (?s + fl ops (c * real m)) \<le> real (\<Sum>k<Suc m. k) / 2 ^ e"
    by (simp only:)
  from lo hi step show ?case by simp
qed


lemma gauss_sum: "real (\<Sum>k<n. k) = real n * (real n - 1) / 2"
  by (induction n) (simp_all add: field_simps)

lemma centre_of_zero_label:
  assumes "shape label = (nx, ny, n)"
    and "\<forall>i<nx. \<forall>j<ny. \<forall>k<n. voxel label i j k = 0"
    and "1 \<le> n"
    and "\<forall>xs. set xs \<subseteq> {0} \<longrightarrow> array_sum ops xs = 0"
    and "fl ops 0 = 0"
  shows "get_center_of_mass_slice ops label
       = Inr (round_half_even (py_sum ops (map (\<lambda>k. fl ops (fl ops (1 / real n) * real k)) [0..<n])))"
proof -
  have w: "slice_weights ops label = replicate n (fl ops (1 / real n))"
    by (rule uniform_weights [OF assms(1,2,4,5)])
  have ne: "map (\<lambda>k. fl ops (fl ops (1 / real n) * real k)) [0..<n] \<noteq> []"
    using assms(3) by simp
  show ?thesis
    using assms(1) ne by (simp add: get_center_of_mass_slice_def w uniform_terms Let_def)
qed

text \<open>
  C6. For a label volume whose entries are all zero and whose depth axis has
  \<open>n \<ge> 1\<close> slices, \<open>get_center_of_mass_slice\<close> falls back to the uniform weights
  (each the float64 quotient \<open>fl (1 / n)\<close>), raises nothing, and returns the rounded
  sum of the products of these weights with the slice numbers, which is a slice index
  \<open>z\<close> with \<open>0 \<le> z < n\<close>. The float64 arithmetic enters through three of its
  properties: the sum of an array of zeros is zero, rounding is monotone, and rounding
  is exact on the multiples \<open>m / 2 ^ e\<close>, \<open>m \<le> n * n\<close>, of the power of two with
  \<open>1 / n \<le> 1 / 2 ^ e \<le> 2 / n\<close> (true of float64 for every \<open>n\<close> up to \<open>2 ^ 26\<close>).
\<close>

theorem get_center_of_mass_slice_all_zero:
  assumes "shape label = (nx, ny, n)"
    and "\<forall>i<nx. \<forall>j<ny. \<forall>k<n. voxel label i j k = 0"
    and "1 \<le> n"
    and "\<forall>xs. set xs \<subseteq> {0} \<longrightarrow> array_sum ops xs = 0"
    and "\<forall>x y. x \<le> y \<longrightarrow> fl ops x \<le> fl ops y"
    and "1 / real n \<le> 1 / 2 ^ e" and "1 / 2 ^ e \<le> 2 / real n"
    and "\<forall>m\<le>n * n. fl ops (real m / 2 ^ e) = real m / 2 ^ e"
  shows "slice_weights ops label = replicate n (fl ops (1 / real n))
       \<and> get_center_of_mass_slice ops label
           = Inr (round_half_even
                    (py_sum ops (map (\<lambda>k. fl ops (fl ops (1 / real n) * real k)) [0..<n])))
       \<and> 0 \<le> round_half_even
                 (py_sum ops (map (\<lambda>k. fl ops (fl ops (1 / real n) * real k)) [0..<n]))
       \<and> round_half_even
             (py_sum ops (map (\<lambda>k. fl ops (fl ops (1 / real n) * real k)) [0..<n])) < int n"
proof -
  let ?c = "py_sum ops (map (\<lambda>k. fl ops (fl ops (1 / real n) * real k)) [0..<n])"
  from assms(8) have z: "fl ops 0 = 0" by (metis div_0 of_nat_0 zero_le)
  have one: "fl ops (1 / 2 ^ e) = 1 / 2 ^ e"
  proof -
    have "(1::nat) \<le> n * n" using assms(3) by (cases n) auto
    with assms(8) have "fl ops (real 1 / 2 ^ e) = real 1 / 2 ^ e" by blast
    then show ?thesis by simp
  qed
  have w0: "0 \<le> fl ops (1 / real n)"
    using assms(5) z by (metis divide_nonneg_nonneg of_nat_0_le_iff zero_le_one)
  have "fl ops (1 / real n) \<le> fl ops (1 / 2 ^ e)" using assms(5,6) by blast
  with one have w1: "fl ops (1 / real n) \<le> 1 / 2 ^ e" by (simp only:)
  from py_sum_grid_bound [OF assms(5) assms(8) w0 w1 order_refl]
  have c0: "0 \<le> ?c" and c1: "?c \<le> real (\<Sum>k<n. k) / 2 ^ e" by simp_all
  have "real (\<Sum>k<n. k) / 2 ^ e = (1 / 2 ^ e) * real (\<Sum>k<n. k)" by simp
  also have "\<dots> \<le> (2 / real n) * real (\<Sum>k<n. k)"
    using assms(7) by (intro mult_right_mono) (simp_all add: sum_nonneg)
  also have "\<dots> = (2 / real n) * (real n * (real n - 1) / 2)"
    by (simp only: gauss_sum)
  also have "\<dots> = real n - 1" using assms(3) by simp
  finally have "real (\<Sum>k<n. k) / 2 ^ e \<le> real n - 1" .
  with c1 have "?c \<le> real_of_int (int n - 1)" by simp
  then have hi: "round_half_even ?c \<le> int n - 1" by (rule round_half_even_upper)
  from c0 have lo: "0 \<le> round_half_even ?c" by (rule round_half_even_lower)
  from uniform_weights [OF assms(1,2,4) z] centre_of_zero_label [OF assms(1,2,3,4) z] lo hi
  show ?thesis by simp
qed

lemma fixed_point_exact: "fl fixed_point_ops (real m / 2 ^ 3) = real m / 2 ^ 3"
proof -
  have "real m / 2 ^ 3 * 1024 + 1 / 2 = of_int (int (128 * m)) + 1 / 2" by simp
  moreover have "\<lfloor>of_int (int (128 * m)) + (1 / 2 :: real)\<rfloor> = int (128 * m)"
    by (rule floor_unique) simp_all
  ultimately have "\<lfloor>real m / 2 ^ 3 * 1024 + 1 / 2\<rfloor> = int (128 * m)"
    by (simp only:)
  then show ?thesis by (simp add: fixed_point_ops_def)
qed

lemma fixed_point_mono: "x \<le> y \<Longrightarrow> fl fixed_point_ops x \<le> fl fixed_point_ops y"
  by (simp add: fixed_point_ops_def divide_right_mono floor_mono)

theorem get_center_of_mass_slice_all_zero_witness:
  "(1::nat) \<le> 8 \<and> 1 / real 8 \<le> 1 / 2 ^ 3 \<and> (1::real) / 2 ^ 3 \<le> 2 / real 8
   \<and> slice_weights fixed_point_ops \<lparr> shape = (2, 3, 8), voxel = (\<lambda>i j k. 0) \<rparr>
       = replicate 8 (1 / 8)
   \<and> get_center_of_mass_slice fixed_point_ops \<lparr> shape = (2, 3, 8), voxel = (\<lambda>i j k. 0) \<rparr>
       = Inr 4"
proof -
  have s: "shape \<lparr> shape = (2, 3, 8), voxel = (\<lambda>i j k. (0::real)) \<rparr> = (2, 3, 8)" by simp
  have z: "\<forall>i<2. \<forall>j<3. \<forall>k<8. voxel \<lparr> shape = (2, 3, 8), voxel = (\<lambda>i j k. (0::real)) \<rparr> i j k = 0"
    by simp
  have n: "(1::nat) \<le> 8" by simp
  have a: "\<forall>xs. set xs \<subseteq> {0} \<longrightarrow> array_sum fixed_point_ops xs = 0"
  proof (intro allI impI)
    fix xs :: "real list" assume "set xs \<subseteq> {0}"
    then have "sum_list xs = 0" by (induction xs) simp_all
    then show "array_sum fixed_point_ops xs = 0" by (simp add: fixed_point_ops_def)
  qed
  have m: "\<forall>x y. x \<le> y \<longrightarrow> fl fixed_point_ops x \<le> fl fixed_point_ops y"
    using fixed_point_mono by blast
  have g: "1 / real 8 \<le> 1 / 2 ^ 3" "(1::real) / 2 ^ 3 \<le> 2 / real 8" by simp_all
  have e: "\<forall>m\<le>8 * 8. fl fixed_point_ops (real m / 2 ^ 3) = real m / 2 ^ 3"
    using fixed_point_exact by blast
  have w: "fl fixed_point_ops (1 / real 8) = 1 / 8"
    using fixed_point_exact [of 1] by simp
  have p: "\<And>k. fl fixed_point_ops (1 / 8 * real k) = real k / 8"
    using fixed_point_exact by simp
  have q: "\<And>k. fl fixed_point_ops (real k / 8) = real k / 8"
    using fixed_point_exact by simp
  have c: "py_sum fixed_point_ops (map (\<lambda>k. fl fixed_point_ops (fl fixed_point_ops (1 / real 8) * real k)) [0..<8])
         = 7 / 2"
  proof -
    have "map (\<lambda>k. fl fixed_point_ops (fl fixed_point_ops (1 / real 8) * real k)) [0..<8]
        = [0, 1 / 8, 2 / 8, 3 / 8, 4 / 8, 5 / 8, 6 / 8, 7 / 8]"
      unfolding w p by (simp add: upt_rec)
    moreover have "py_sum fixed_point_ops [0, 1 / 8, 2 / 8, 3 / 8, 4 / 8, 5 / 8, 6 / 8, 7 / 8] = 7 / 2"
    proof -
      have f: "fl fixed_point_ops 0 = 0" "fl fixed_point_ops (1 / 8) = 1 / 8"
        "fl fixed_point_ops (3 / 8) = 3 / 8" "fl fixed_point_ops (3 / 4) = 3 / 4"
        "fl fixed_point_ops (5 / 4) = 5 / 4" "fl fixed_point_ops (15 / 8) = 15 / 8"
        "fl fixed_point_ops (21 / 8) = 21 / 8" "fl fixed_point_ops (7 / 2) = 7 / 2"
        by (simp_all add: fixed_point_ops_def)
      show ?thesis by (simp add: py_sum_def f)
    qed
    ultimately show ?thesis by (simp only:)
  qed
  have r: "round_half_even (7 / 2) = 4"
  proof -
    have "\<lfloor>7 / 2 :: real\<rfloor> = 3" by (rule floor_unique) simp_all
    then show ?thesis by (simp add: round_half_even_def Let_def)
  qed
  note t = get_center_of_mass_slice_all_zero [OF s z n a m g e]
  from t have t1: "slice_weights fixed_point_ops \<lparr> shape = (2, 3, 8), voxel = (\<lambda>i j k. 0) \<rparr>
      = replicate 8 (fl fixed_point_ops (1 / real 8))" by (rule conjunct1)
  from t have t2: "get_center_of_mass_slice fixed_point_ops
        \<lparr> shape = (2, 3, 8), voxel = (\<lambda>i j k. 0) \<rparr>
      = Inr (round_half_even (py_sum fixed_point_ops
          (map (\<lambda>k. fl fixed_point_ops (fl fixed_point_ops (1 / real 8) * real k)) [0..<8])))"
    by blast
  have t3: "get_center_of_mass_slice fixed_point_ops
        \<lparr> shape = (2, 3, 8), voxel = (\<lambda>i j k. 0) \<rparr> = Inr 4"
    by (simp only: t2 c r)
  have t4: "slice_weights fixed_point_ops \<lparr> shape = (2, 3, 8), voxel = (\<lambda>i j k. 0) \<rparr>
      = replicate 8 (1 / 8)"
    by (simp only: t1 w)
  from n g t3 t4 show ?thesis by blast
qed

section \<open>The builder\<close>

lemma get_att_layer_eq:
  "get_att_layer self i oc k =
     Inr (Sequential [AttentionBlock1 (dimensions self) i oc k None (dropout self),
                      AttentionBlock2 (dimensions self) i oc k None (dropout self)])"
  by (simp add: get_att_layer_def nn_Sequential_def List.map_filter_simps)

lemma create_block_step:
  "create_block self inc outc (c # c1 # rest) (s # strds) (k # k1 # ks) (sk # sks) is_top =
     (case (if rest \<noteq> []
            then create_block self c c1 (c1 # rest) strds (k1 # ks) sks False
            else get_bottom_layer self c c1 k1) of
        Inl e \<Rightarrow> Inl e
      | Inr subblock \<Rightarrow>
          (case get_up_layer self (2 * c) outc k is_top of
             Inl e \<Rightarrow> Inl e
           | Inr up \<Rightarrow>
               nn_Sequential
                 [Module (get_down_layer self inc c k),
                  Module (SkipConnection (Sequential
                     [get_downsample_layer self c c s sk, subblock,
                      get_upsample_layer self c1 c s sk])),
                  up]))"
  by (subst create_block.simps)
     (simp add: py_index_def nn_Sequential_def List.map_filter_simps Let_def
        split: sum.splits)

lemma get_bottom_layer_eq: "get_bottom_layer self cin cout k = Inr (bottom_block self cin cout k)"
  by (simp add: get_bottom_layer_def bottom_block_def get_att_layer_eq nn_Sequential_def
      List.map_filter_simps Let_def)

lemma count_att1_down [simp]: "count_att1 (get_down_layer self i oc k) = 0"
  by (simp add: get_down_layer_def)

lemma count_att1_bottom: "count_att1 (bottom_block self cin cout k) = (if attention_module self then 1 else 0)"
  by (simp add: bottom_block_def)

lemma transformer_args_down [simp]: "transformer_args (get_down_layer self i oc k) = []"
  by (simp add: get_down_layer_def)

lemma transformer_args_bottom:
  "transformer_args (bottom_block self cin cout k) = [(cin, 96, 4, 192)]"
  by (simp add: bottom_block_def)

lemma bottom_of_bottom: "bottom_of (bottom_block self cin cout k) = bottom_block self cin cout k"
  by (simp add: bottom_block_def get_down_layer_def)

lemma get_up_layer_ok:
  assumes "attention_module self \<or> num_res_units self > 0"
  shows "\<exists>u. get_up_layer self i oc k is_top = Inr (Module u)
           \<and> count_att1 u = (if attention_module self then 1 else 0)
           \<and> transformer_args u = []"
  using assms
  by (auto simp: get_up_layer_def get_att_layer_eq nn_Sequential_def List.map_filter_simps Let_def)

lemma create_block_ok:
  assumes a: "attention_module self \<or> num_res_units self > 0"
  shows "length strds = length rest \<Longrightarrow> length ks = length rest \<Longrightarrow> length sks = length rest \<Longrightarrow>
    \<exists>m. create_block self inc outc (c # c1 # rest) (s # strds) (k # k1 # ks) (sk # sks) is_top = Inr m
       \<and> count_att1 m = (if attention_module self then length rest + 2 else 0)
       \<and> bottom_of m = bottom_block self (last (butlast (c # c1 # rest))) (last (c1 # rest)) (last (k1 # ks))
       \<and> transformer_args m = [(last (butlast (c # c1 # rest)), 96, 4, 192)]"
proof (induction rest arbitrary: inc outc c c1 s strds k k1 ks sk sks is_top)
  case Nil
  from get_up_layer_ok [OF a, of "2 * c" outc k is_top]
  obtain u where u: "get_up_layer self (2 * c) outc k is_top = Inr (Module u)"
    "count_att1 u = (if attention_module self then 1 else 0)" "transformer_args u = []" by blast
  from Nil show ?case
    by (simp add: create_block_step get_bottom_layer_eq u nn_Sequential_def
        List.map_filter_simps count_att1_bottom bottom_of_bottom transformer_args_bottom
        get_downsample_layer_def get_upsample_layer_def)
next
  case (Cons r rest)
  from Cons.prems obtain s' strds' where st: "strds = s' # strds'" "length strds' = length rest"
    by (cases strds) auto
  from Cons.prems obtain k' ks' where ks: "ks = k' # ks'" "length ks' = length rest"
    by (cases ks) auto
  from Cons.prems obtain sk' sks' where sk: "sks = sk' # sks'" "length sks' = length rest"
    by (cases sks) auto
  from Cons.IH [OF st(2) ks(2) sk(2), of c c1 c1 r s' k1 k' sk' False]
  obtain m where m: "create_block self c c1 (c1 # r # rest) (s' # strds') (k1 # k' # ks') (sk' # sks') False = Inr m"
    "count_att1 m = (if attention_module self then length rest + 2 else 0)"
    "bottom_of m = bottom_block self (last (butlast (c1 # r # rest))) (last (r # rest)) (last (k' # ks'))"
    "transformer_args m = [(last (butlast (c1 # r # rest)), 96, 4, 192)]"
    by blast
  from get_up_layer_ok [OF a, of "2 * c" outc k is_top]
  obtain u where u: "get_up_layer self (2 * c) outc k is_top = Inr (Module u)"
    "count_att1 u = (if attention_module self then 1 else 0)" "transformer_args u = []" by blast
  show ?case
    unfolding st ks sk
    by (subst create_block_step)
       (simp add: m u nn_Sequential_def List.map_filter_simps
          get_downsample_layer_def get_upsample_layer_def)
qed

lemma second_last: "last (butlast (c # c1 # rest)) = (c # c1 # rest) ! (length (c # c1 # rest) - 2)"
  by (induction rest arbitrary: c c1) simp_all

lemma init_valid:
  assumes l1: "length (channels args) = length (kernel_sizes args)"
    and l2: "length (kernel_sizes args) = length (strides args) + 1"
    and l3: "length (strides args) + 1 = length (sample_kernel_sizes args) + 1"
    and two: "2 \<le> length (channels args)"
    and a: "attention_module args \<or> num_res_units args > 0"
  shows "\<exists>net. (UNet2d5_spvPA_init args :: py_error + 'm UNet2d5_spvPA) = Inr net
       \<and> channels net = channels args \<and> att_maps net = []
       \<and> att1_hooked net = attention_module args
       \<and> count_att1 (model net) = (if attention_module args then length (channels args) else 0)
       \<and> bottom_of (model net) =
            bottom_block args (channels args ! (length (channels args) - 2))
              (last (channels args)) (last (kernel_sizes args))
       \<and> transformer_args (model net) = [(channels args ! (length (channels args) - 2), 96, 4, 192)]"
proof -
  from two obtain c c1 rest where ch: "channels args = c # c1 # rest"
    by (cases "channels args"; cases "tl (channels args)") auto
  from l1 ch obtain k k1 ks where k: "kernel_sizes args = k # k1 # ks" "length ks = length rest"
    by (cases "kernel_sizes args"; cases "tl (kernel_sizes args)") auto
  from l2 k obtain s strds where s: "strides args = s # strds" "length strds = length rest"
    by (cases "strides args") auto
  from l3 s obtain sk sks where sk: "sample_kernel_sizes args = sk # sks" "length sks = length rest"
    by (cases "sample_kernel_sizes args") auto
  from create_block_ok [OF a s(2) k(2) sk(2), of "in_channels args" "out_channels args" c c1 s k k1 sk True]
  obtain m where m:
    "create_block args (in_channels args) (out_channels args) (c # c1 # rest) (s # strds)
       (k # k1 # ks) (sk # sks) True = Inr m"
    "count_att1 m = (if attention_module args then length rest + 2 else 0)"
    "bottom_of m = bottom_block args (last (butlast (c # c1 # rest))) (last (c1 # rest)) (last (k1 # ks))"
    "transformer_args m = [(last (butlast (c # c1 # rest)), 96, 4, 192)]"
    by blast
  have sl: "last (butlast (c # c1 # rest)) = (c # c1 # rest) ! (length (c # c1 # rest) - 2)"
    by (rule second_last)
  show ?thesis
    using m sl by (simp add: UNet2d5_spvPA_init_def ch k s sk)
qed

lemma create_block_needs_module:
  assumes "create_block self inc outc chs strds ks sks is_top = Inr m"
  shows "attention_module self \<or> num_res_units self > 0"
proof (rule ccontr)
  assume n: "\<not> (attention_module self \<or> num_res_units self > 0)"
  then have u: "get_up_layer self i oc k tp = Inr Identity_class" for i oc k tp
    by (simp add: get_up_layer_def)
  from assms show False
    by (subst (asm) create_block.simps)
       (simp add: u nn_Sequential_def Let_def split: sum.splits)
qed

lemma create_block_no_assertion:
  "create_block self inc outc chs strds ks sks is_top \<noteq> Inl (AssertionError msg)"
proof (induction self inc outc chs strds ks sks is_top rule: create_block.induct)
  case (1 self inc outc chs strds ks sks is_top)
  have up: "get_up_layer self i oc k tp \<noteq> Inl (AssertionError msg)" for i oc k tp
    by (simp add: get_up_layer_def get_att_layer_eq nn_Sequential_def List.map_filter_simps Let_def)
  show ?case
    apply (subst create_block.simps)
    using 1 up
    apply (auto simp: py_index_def get_bottom_layer_eq nn_Sequential_def Let_def
        split: sum.splits if_splits)
    done
qed

text \<open>
  C2. With attention gating disabled and residual-unit count 0, building the up-path
  block should give an identity module. Evaluated on the arguments of
  \<^verbatim>\<open>set_and_get_model\<close> with \<^verbatim>\<open>num_res_units=0\<close> and attention disabled:
  \<open>get_up_layer\<close> returns the class \<^verbatim>\<open>nn.Identity\<close>, not an instance, and the
  construction of the network raises \<open>TypeError\<close> in \<^verbatim>\<open>nn.Sequential\<close>.
\<close>

theorem identity_up_layer_fails:
  "get_up_layer ((set_and_get_model_args False)\<lparr>num_res_units := 0\<rparr>) 32 2 (TupleSize [3, 3, 1]) True
     = Inr Identity_class
   \<and> (UNet2d5_spvPA_init ((set_and_get_model_args False)\<lparr>num_res_units := 0\<rparr>)
        :: py_error + 'm UNet2d5_spvPA)
     = Inl (TypeError ''torch.nn.modules.linear.Identity is not a Module subclass'')"
  by (simp add: set_and_get_model_args_def get_up_layer_def UNet2d5_spvPA_init_def
      create_block.simps py_index_def get_bottom_layer_eq nn_Sequential_def Let_def
      List.map_filter_simps)

text \<open>
  C5, as the code has it. When the list lengths violate
  \<^verbatim>\<open>len(channels) == len(kernel_sizes) == len(strides) + 1 == len(sample_kernel_sizes) + 1\<close>
  the constructor raises \<open>AssertionError\<close> with an empty message, before anything is
  built; when they satisfy it the constructor raises no \<open>AssertionError\<close>.
\<close>

theorem length_assertion:
  "(\<not> (length (channels args) = length (kernel_sizes args)
        \<and> length (kernel_sizes args) = length (strides args) + 1
        \<and> length (strides args) + 1 = length (sample_kernel_sizes args) + 1)
      \<longrightarrow> (UNet2d5_spvPA_init args :: py_error + 'm UNet2d5_spvPA) = Inl (AssertionError []))
   \<and> (length (channels args) = length (kernel_sizes args)
        \<and> length (kernel_sizes args) = length (strides args) + 1
        \<and> length (strides args) + 1 = length (sample_kernel_sizes args) + 1
      \<longrightarrow> (\<forall>msg. (UNet2d5_spvPA_init args :: py_error + 'm UNet2d5_spvPA)
             \<noteq> Inl (AssertionError msg)))"
  using create_block_no_assertion [of args "in_channels args" "out_channels args"
      "channels args" "strides args" "kernel_sizes args" "sample_kernel_sizes args" True]
  by (auto simp: UNet2d5_spvPA_init_def split: sum.splits)

theorem length_assertion_witness:
  "\<not> (length (channels ((set_and_get_model_args True)\<lparr>strides := [TupleSize [2, 2, 1]]\<rparr>))
         = length (kernel_sizes ((set_and_get_model_args True)\<lparr>strides := [TupleSize [2, 2, 1]]\<rparr>))
       \<and> length (kernel_sizes ((set_and_get_model_args True)\<lparr>strides := [TupleSize [2, 2, 1]]\<rparr>))
         = length (strides ((set_and_get_model_args True)\<lparr>strides := [TupleSize [2, 2, 1]]\<rparr>)) + 1
       \<and> length (strides ((set_and_get_model_args True)\<lparr>strides := [TupleSize [2, 2, 1]]\<rparr>)) + 1
         = length (sample_kernel_sizes ((set_and_get_model_args True)\<lparr>strides := [TupleSize [2, 2, 1]]\<rparr>)) + 1)
   \<and> (UNet2d5_spvPA_init ((set_and_get_model_args True)\<lparr>strides := [TupleSize [2, 2, 1]]\<rparr>)
         :: py_error + nat UNet2d5_spvPA) = Inl (AssertionError [])
   \<and> length (channels (set_and_get_model_args True)) = length (kernel_sizes (set_and_get_model_args True))
   \<and> length (kernel_sizes (set_and_get_model_args True)) = length (strides (set_and_get_model_args True)) + 1
   \<and> length (strides (set_and_get_model_args True)) + 1
         = length (sample_kernel_sizes (set_and_get_model_args True)) + 1
   \<and> (UNet2d5_spvPA_init (set_and_get_model_args True) :: py_error + nat UNet2d5_spvPA)
         \<noteq> Inl (AssertionError [])"
  using length_assertion [where ?'m = nat,
      of "(set_and_get_model_args True)\<lparr>strides := [TupleSize [2, 2, 1]]\<rparr>"]
    length_assertion [where ?'m = nat, of "set_and_get_model_args True"]
  by (simp add: set_and_get_model_args_def)

text \<open>
  C5 as stated fails: with \<^verbatim>\<open>strides\<close> of length 1 and six channel entries the error is
  \<open>AssertionError\<close> with the empty message, which names none of the lists.
\<close>

theorem assertion_names_no_list:
  "(UNet2d5_spvPA_init ((set_and_get_model_args True)\<lparr>strides := [TupleSize [2, 2, 1]]\<rparr>)
      :: py_error + nat UNet2d5_spvPA) = Inl (AssertionError [])
   \<and> \<not> names_a_list (AssertionError [])"
  by (simp add: UNet2d5_spvPA_init_def set_and_get_model_args_def names_a_list_def)

text \<open>
  C7, as the code has it. For every configuration whose lists satisfy the length
  invariant, with at least two channel entries and with attention enabled or
  \<open>num_res_units > 0\<close>, the construction succeeds and the innermost sub-block is the
  bottom block: the attention layer when attention is enabled, then the only
  \<open>TransformerBottleneck3D\<close> of the model, with \<open>in_channels\<close> the last but one channel
  entry and the fixed arguments \<open>embed_dim = 96\<close>, \<open>num_heads = 4\<close>,
  \<open>hidden_dim = 192\<close>, then the down layer from the last but one to the last channel
  entry with the last kernel size.
\<close>

theorem bottom_layer_structure:
  assumes l1: "length (channels args) = length (kernel_sizes args)"
    and l2: "length (kernel_sizes args) = length (strides args) + 1"
    and l3: "length (strides args) + 1 = length (sample_kernel_sizes args) + 1"
    and two: "2 \<le> length (channels args)"
    and a: "attention_module args \<or> num_res_units args > 0"
  shows "\<exists>net. (UNet2d5_spvPA_init args :: py_error + 'm UNet2d5_spvPA) = Inr net
       \<and> bottom_of (model net) =
           Sequential
             ((if attention_module args
               then [Sequential
                       [AttentionBlock1 (dimensions args)
                          (channels args ! (length (channels args) - 2))
                          (channels args ! (length (channels args) - 2))
                          (last (kernel_sizes args)) None (dropout args),
                        AttentionBlock2 (dimensions args)
                          (channels args ! (length (channels args) - 2))
                          (channels args ! (length (channels args) - 2))
                          (last (kernel_sizes args)) None (dropout args)]]
               else [])
              @ [TransformerBottleneck3D (channels args ! (length (channels args) - 2)) 96 4 192,
                 get_down_layer args (channels args ! (length (channels args) - 2))
                   (last (channels args)) (last (kernel_sizes args))])
       \<and> transformer_args (model net)
           = [(channels args ! (length (channels args) - 2), 96, 4, 192)]"
  using init_valid [OF l1 l2 l3 two a, where ?'m = 'm]
  by (auto simp: bottom_block_def)

theorem bottom_layer_structure_witness:
  "length (channels (set_and_get_model_args True)) = length (kernel_sizes (set_and_get_model_args True))
   \<and> length (kernel_sizes (set_and_get_model_args True)) = length (strides (set_and_get_model_args True)) + 1
   \<and> length (strides (set_and_get_model_args True)) + 1
         = length (sample_kernel_sizes (set_and_get_model_args True)) + 1
   \<and> 2 \<le> length (channels (set_and_get_model_args True))
   \<and> (attention_module (set_and_get_model_args True) \<or> num_res_units (set_and_get_model_args True) > 0)
   \<and> (\<exists>net. (UNet2d5_spvPA_init (set_and_get_model_args True) :: py_error + nat UNet2d5_spvPA) = Inr net
        \<and> bottom_of (model net) =
            Sequential
              [Sequential [AttentionBlock1 3 80 80 (TupleSize [3, 3, 3]) None (1 / 10),
                           AttentionBlock2 3 80 80 (TupleSize [3, 3, 3]) None (1 / 10)],
               TransformerBottleneck3D 80 96 4 192,
               ResidualUnit 3 80 96 (IntSize 1) (TupleSize [3, 3, 3]) 2 ''prelu'' (Some ''batch'')
                 (1 / 10) None]
        \<and> transformer_args (model net) = [(80, 96, 4, 192)])"
  using bottom_layer_structure [where ?'m = nat, of "set_and_get_model_args True"]
  by (simp add: set_and_get_model_args_def get_down_layer_def)

text \<open>
  C7 as stated fails: with the channel entries \<open>[16, 32]\<close> the embedding dimension is
  96, which is neither 32 nor 16 rounded to a multiple of 3.
\<close>

theorem embed_dim_not_rounded_channel_count:
  "map_sum id (\<lambda>net. transformer_args (model net))
      (UNet2d5_spvPA_init two_level_args :: py_error + nat UNet2d5_spvPA)
     = Inr [(16, 96, 4, 192)]
   \<and> \<not> rounded_to_multiple_of_3 32 96
   \<and> \<not> rounded_to_multiple_of_3 16 96"
  by (simp add: two_level_args_def set_and_get_model_args_def UNet2d5_spvPA_init_def
      create_block.simps py_index_def get_bottom_layer_eq bottom_block_def get_up_layer_def
      get_att_layer_eq get_down_layer_def get_downsample_layer_def get_upsample_layer_def
      nn_Sequential_def List.map_filter_simps Let_def rounded_to_multiple_of_3_def)

section \<open>The attention map registry\<close>

lemma run_calls_length:
  "length (snd (run_module t hooked l x)) = (if hooked then count_att1 l else 0)"
  "length (snd (run_modules t hooked ls x)) = (if hooked then count_att1s ls else 0)"
proof (induction t hooked l x and t hooked ls x rule: run_module_run_modules.induct)
  case (2 t hooked l x)
  obtain y calls where r: "run_module t hooked l x = (y, calls)"
    by (cases "run_module t hooked l x")
  from 2 show ?case by (simp add: r)
next
  case (9 t hooked l ls x)
  obtain y calls where r: "run_module t hooked l x = (y, calls)"
    by (cases "run_module t hooked l x")
  obtain z calls' where r': "run_modules t hooked ls y = (z, calls')"
    by (cases "run_modules t hooked ls y")
  from 9(1) 9(2) [OF r [symmetric]] show ?case by (simp add: r r')
qed (simp_all add: Let_def)

lemma hook_channels [simp]: "channels (hook_save_attention_map s m) = channels s"
  by (simp add: hook_save_attention_map_def Let_def)

lemma hook_model [simp]: "model (hook_save_attention_map s m) = model s"
  by (simp add: hook_save_attention_map_def Let_def)

lemma hook_hooked [simp]: "att1_hooked (hook_save_attention_map s m) = att1_hooked s"
  by (simp add: hook_save_attention_map_def Let_def)

lemma foldl_hook_channels [simp]: "channels (foldl hook_save_attention_map s ms) = channels s"
  by (induction ms arbitrary: s) simp_all

lemma foldl_hook_model [simp]: "model (foldl hook_save_attention_map s ms) = model s"
  by (induction ms arbitrary: s) simp_all

lemma foldl_hook_hooked [simp]: "att1_hooked (foldl hook_save_attention_map s ms) = att1_hooked s"
  by (induction ms arbitrary: s) simp_all

lemma hook_att_maps:
  "att_maps (hook_save_attention_map s m) =
     (if length (att_maps s) = length (channels s) then [m] else att_maps s @ [m])"
  by (simp add: hook_save_attention_map_def Let_def)

lemma foldl_hook_fill:
  "length (att_maps s) + length ms \<le> length (channels s) \<Longrightarrow>
     att_maps (foldl hook_save_attention_map s ms) = att_maps s @ ms"
proof (induction ms arbitrary: s)
  case Nil
  then show ?case by simp
next
  case (Cons m ms)
  from Cons.prems have lt: "length (att_maps s) \<noteq> length (channels s)" by simp
  have "att_maps (foldl hook_save_attention_map (hook_save_attention_map s m) ms)
        = att_maps (hook_save_attention_map s m) @ ms"
    using Cons.prems lt by (intro Cons.IH) (simp add: hook_att_maps)
  then show ?case using lt by (simp add: hook_att_maps)
qed

lemma foldl_hook_evaluation:
  assumes "att_maps s = [] \<or> length (att_maps s) = length (channels s)"
    and "length ms = length (channels s)"
  shows "att_maps (foldl hook_save_attention_map s ms) = ms"
proof (cases ms)
  case Nil
  with assms show ?thesis by auto
next
  case (Cons m ms')
  have one: "att_maps (hook_save_attention_map s m) = [m]"
    using assms by (auto simp: hook_att_maps)
  have "att_maps (foldl hook_save_attention_map (hook_save_attention_map s m) ms')
        = att_maps (hook_save_attention_map s m) @ ms'"
    using assms(2) Cons by (intro foldl_hook_fill) (simp add: one)
  then show ?thesis using Cons by (simp add: one)
qed

lemma foldl_hook_bound:
  "length (att_maps s) \<le> length (channels s) \<Longrightarrow> 1 \<le> length (channels s) \<Longrightarrow>
     length (att_maps (foldl hook_save_attention_map s ms)) \<le> length (channels s)"
proof (induction ms arbitrary: s)
  case Nil
  then show ?case by simp
next
  case (Cons m ms)
  have "length (att_maps (hook_save_attention_map s m)) \<le> length (channels (hook_save_attention_map s m))"
    using Cons.prems by (auto simp: hook_att_maps)
  from Cons.IH [OF this] Cons.prems(2) show ?case by simp
qed

lemma forward_state:
  "snd (forward t n x) = foldl hook_save_attention_map n (snd (run_module t (att1_hooked n) (model n) x))"
  "snd (fst (forward t n x)) = att_maps (snd (forward t n x))"
  by (simp_all add: forward_def Let_def split: prod.splits)

lemma forward_att_maps:
  assumes "registry_ready n"
  shows "att_maps (snd (forward t n x)) = snd (run_module t (att1_hooked n) (model n) x)"
proof -
  have "length (snd (run_module t (att1_hooked n) (model n) x)) = length (channels n)"
    using assms by (simp add: run_calls_length registry_ready_def)
  with assms show ?thesis
    by (simp add: forward_state(1) registry_ready_def foldl_hook_evaluation)
qed

lemma forward_ready:
  assumes "registry_ready n"
  shows "registry_ready (snd (forward t n x))
       \<and> channels (snd (forward t n x)) = channels n
       \<and> model (snd (forward t n x)) = model n"
proof -
  have c: "channels (snd (forward t n x)) = channels n" "model (snd (forward t n x)) = model n"
    "att1_hooked (snd (forward t n x)) = att1_hooked n"
    by (simp_all add: forward_state(1))
  have "length (att_maps (snd (forward t n x))) = length (channels n)"
    using assms by (simp add: forward_att_maps [OF assms] run_calls_length registry_ready_def)
  with assms c show ?thesis by (simp add: registry_ready_def)
qed

lemma evaluations_ready:
  assumes "registry_ready n"
  shows "registry_ready (foldl (\<lambda>n x. snd (forward t n x)) n xs)
       \<and> channels (foldl (\<lambda>n x. snd (forward t n x)) n xs) = channels n
       \<and> model (foldl (\<lambda>n x. snd (forward t n x)) n xs) = model n"
  using assms
proof (induction xs arbitrary: n)
  case Nil
  then show ?case by simp
next
  case (Cons x xs)
  from forward_ready [OF Cons.prems, of t x] Cons.IH [of "snd (forward t n x)"]
  show ?case by simp
qed

text \<open>
  C4. With attention gating enabled (and a configuration whose lists satisfy the length
  invariant, with at least two channel entries) the network is built with an empty
  registry and one \<open>AttentionBlock1\<close> per channel entry. After any number of complete
  evaluations, a further complete evaluation makes exactly \<open>len(channels)\<close> hook calls,
  and afterwards the registry \<open>att_maps\<close> (also the second component of the value
  returned) holds exactly the maps of these calls, in the order in which the gates ran.
  After every prefix of the hook calls the registry holds at most \<open>len(channels)\<close>
  maps.
\<close>

theorem att_maps_one_per_gate:
  assumes l1: "length (channels args) = length (kernel_sizes args)"
    and l2: "length (kernel_sizes args) = length (strides args) + 1"
    and l3: "length (strides args) + 1 = length (sample_kernel_sizes args) + 1"
    and two: "2 \<le> length (channels args)"
    and att: "attention_module args"
  shows "\<exists>net0. (UNet2d5_spvPA_init args :: py_error + 'm UNet2d5_spvPA) = Inr net0
       \<and> att_maps net0 = []
       \<and> count_att1 (model net0) = length (channels args)
       \<and> (\<forall>xs x.
            let net = foldl (\<lambda>n x. snd (forward t n x)) net0 xs;
                calls = snd (run_module t (att1_hooked net) (model net) x)
            in length calls = length (channels args)
             \<and> att_maps (snd (forward t net x)) = calls
             \<and> snd (fst (forward t net x)) = calls
             \<and> (\<forall>k. length (att_maps (foldl hook_save_attention_map net (take k calls)))
                      \<le> length (channels args)))"
proof -
  from att have a: "attention_module args \<or> num_res_units args > 0" by simp
  from init_valid [OF l1 l2 l3 two a, where ?'m = 'm]
  obtain net0 :: "'m UNet2d5_spvPA" where n0: "UNet2d5_spvPA_init args = Inr net0"
    "channels net0 = channels args" "att_maps net0 = []" "att1_hooked net0 = attention_module args"
    "count_att1 (model net0) = (if attention_module args then length (channels args) else 0)"
    by blast
  from n0 att have r0: "registry_ready net0" by (simp add: registry_ready_def)
  have main: "length (snd (run_module t (att1_hooked net) (model net) x)) = length (channels args)
      \<and> att_maps (snd (forward t net x)) = snd (run_module t (att1_hooked net) (model net) x)
      \<and> snd (fst (forward t net x)) = snd (run_module t (att1_hooked net) (model net) x)
      \<and> (\<forall>k. length (att_maps (foldl hook_save_attention_map net
                 (take k (snd (run_module t (att1_hooked net) (model net) x)))))
               \<le> length (channels args))"
    if net: "net = foldl (\<lambda>n x. snd (forward t n x)) net0 xs" for net xs x
  proof -
    from evaluations_ready [OF r0, of t xs] net n0(2)
    have r: "registry_ready net" and c: "channels net = channels args" by simp_all
    have len: "length (snd (run_module t (att1_hooked net) (model net) x)) = length (channels args)"
      using r c by (simp add: run_calls_length registry_ready_def)
    have le: "length (att_maps net) \<le> length (channels net)"
      using r by (auto simp: registry_ready_def)
    have one: "1 \<le> length (channels net)" using two c by simp
    have bound: "length (att_maps (foldl hook_save_attention_map net ms)) \<le> length (channels args)" for ms
      using foldl_hook_bound [OF le one, of ms] c by simp
    from len forward_att_maps [OF r, of t x] bound show ?thesis
      by (simp add: forward_state(2))
  qed
  from n0 att main show ?thesis by (auto simp: Let_def)
qed

theorem att_maps_one_per_gate_witness:
  "length (channels (set_and_get_model_args True)) = length (kernel_sizes (set_and_get_model_args True))
   \<and> length (kernel_sizes (set_and_get_model_args True)) = length (strides (set_and_get_model_args True)) + 1
   \<and> length (strides (set_and_get_model_args True)) + 1
         = length (sample_kernel_sizes (set_and_get_model_args True)) + 1
   \<and> 2 \<le> length (channels (set_and_get_model_args True))
   \<and> attention_module (set_and_get_model_args True)
   \<and> (\<exists>net0. (UNet2d5_spvPA_init (set_and_get_model_args True) :: py_error + nat UNet2d5_spvPA) = Inr net0
       \<and> att_maps net0 = []
       \<and> count_att1 (model net0) = 6
       \<and> (\<forall>xs x.
            let net = foldl (\<lambda>n x. snd (forward
                        \<lparr>leaf_forward = (\<lambda>l x. Suc x), cat = (+), item0 = (\<lambda>x. x)\<rparr> n x)) net0 xs;
                calls = snd (run_module \<lparr>leaf_forward = (\<lambda>l x. Suc x), cat = (+), item0 = (\<lambda>x. x)\<rparr>
                               (att1_hooked net) (model net) x)
            in length calls = 6
             \<and> att_maps (snd (forward \<lparr>leaf_forward = (\<lambda>l x. Suc x), cat = (+), item0 = (\<lambda>x. x)\<rparr> net x))
                 = calls
             \<and> snd (fst (forward \<lparr>leaf_forward = (\<lambda>l x. Suc x), cat = (+), item0 = (\<lambda>x. x)\<rparr> net x))
                 = calls
             \<and> (\<forall>k. length (att_maps (foldl hook_save_attention_map net (take k calls))) \<le> 6)))"
proof -
  have h: "length (channels (set_and_get_model_args True)) = length (kernel_sizes (set_and_get_model_args True))"
    "length (kernel_sizes (set_and_get_model_args True)) = length (strides (set_and_get_model_args True)) + 1"
    "length (strides (set_and_get_model_args True)) + 1
         = length (sample_kernel_sizes (set_and_get_model_args True)) + 1"
    "2 \<le> length (channels (set_and_get_model_args True))"
    "attention_module (set_and_get_model_args True)"
    by (simp_all add: set_and_get_model_args_def)
  have six: "length (channels (set_and_get_model_args True)) = 6"
    by (simp add: set_and_get_model_args_def)
  from att_maps_one_per_gate [OF h, where ?'m = nat
      and t = "\<lparr>leaf_forward = (\<lambda>l x. Suc x), cat = (+), item0 = (\<lambda>x. x)\<rparr>"]
  have "\<exists>net0. (UNet2d5_spvPA_init (set_and_get_model_args True) :: py_error + nat UNet2d5_spvPA) = Inr net0
       \<and> att_maps net0 = []
       \<and> count_att1 (model net0) = 6
       \<and> (\<forall>xs x.
            let net = foldl (\<lambda>n x. snd (forward
                        \<lparr>leaf_forward = (\<lambda>l x. Suc x), cat = (+), item0 = (\<lambda>x. x)\<rparr> n x)) net0 xs;
                calls = snd (run_module \<lparr>leaf_forward = (\<lambda>l x. Suc x), cat = (+), item0 = (\<lambda>x. x)\<rparr>
                               (att1_hooked net) (model net) x)
            in length calls = 6
             \<and> att_maps (snd (forward \<lparr>leaf_forward = (\<lambda>l x. Suc x), cat = (+), item0 = (\<lambda>x. x)\<rparr> net x))
                 = calls
             \<and> snd (fst (forward \<lparr>leaf_forward = (\<lambda>l x. Suc x), cat = (+), item0 = (\<lambda>x. x)\<rparr> net x))
                 = calls
             \<and> (\<forall>k. length (att_maps (foldl hook_save_attention_map net (take k calls))) \<le> 6))"
    unfolding six .
  with h show ?thesis by blast
qed


section \<open>The transformer refinement block\<close>

lemma Conv3d_forward_ok:
  assumes "dims x = [b, cin, h, w, d]" "1 \<le> h" "1 \<le> w" "1 \<le> d"
  shows "Conv3d_forward cin cout out x = Inr \<lparr> dims = [b, cout, h, w, d], elems = out x \<rparr>"
  using assms by (simp add: Conv3d_forward_def)

lemma flatten_transpose_ok:
  assumes "dims x = [b, c, h, w, d]"
  shows "\<exists>y. flatten_transpose x = Inr y \<and> dims y = [b, h * w * d, c]"
  using assms by (simp add: flatten_transpose_def)

lemma generate_positional_encoding_ok:
  assumes "3 dvd e" "even (e div 3)"
  shows "\<exists>y. generate_positional_encoding ops h w d e = Inr y \<and> dims y = [1, h * w * d, e]"
  using assms by (auto simp: generate_positional_encoding_def Let_def)

lemma tensor_add_same:
  assumes "dims a = dims b"
  shows "tensor_add ops a b
       = Inr \<lparr> dims = dims a, elems = (\<lambda>i. fadd (rnd ops) (elems a i) (elems b i)) \<rparr>"
  using assms by (simp add: tensor_add_def)

lemma tensor_add_batch:
  assumes "dims a = [b, n, e]" "dims p = [1, n, e]"
  shows "\<exists>y. tensor_add ops a p = Inr y \<and> dims y = [b, n, e]"
  using assms by (auto simp: tensor_add_def)

lemma attn_forward_ok:
  assumes "dims x = [b, n, tb_embed_dim self]"
  shows "\<exists>y. attn_forward self x = Inr y \<and> dims y = dims x"
  using assms by (simp add: attn_forward_def)

lemma ffn_forward_ok:
  assumes "dims x = [b, n, tb_embed_dim self]"
  shows "\<exists>y. ffn_forward self x = Inr y \<and> dims y = dims x"
  using assms by (simp add: ffn_forward_def)

lemma transpose_view_ok:
  assumes "dims x = [b, h * w * d, e]" "1 \<le> b" "1 \<le> h" "1 \<le> w" "1 \<le> d"
  shows "\<exists>y. transpose_view x b h w d = Inr y \<and> dims y = [b, e, h, w, d]"
  using assms by (simp add: transpose_view_def)

lemma projected_output_ok:
  assumes x: "dims x = [b, tb_in_channels self, h, w, d]"
    and b: "1 \<le> b"
    and p: "1 \<le> h" "1 \<le> w" "1 \<le> d"
    and e: "3 dvd tb_embed_dim self" "even (tb_embed_dim self div 3)"
  shows "\<exists>x_out. projected_output ops self x = Inr x_out \<and> dims x_out = dims x"
proof -
  define xp where "xp = \<lparr> dims = [b, tb_embed_dim self, h, w, d], elems = proj_output self x \<rparr>"
  have xp: "Conv3d_forward (tb_in_channels self) (tb_embed_dim self) (proj_output self) x = Inr xp"
    "dims xp = [b, tb_embed_dim self, h, w, d]"
    using Conv3d_forward_ok [OF x p] by (simp_all add: xp_def)
  from flatten_transpose_ok [OF xp(2)]
  obtain xt where xt: "flatten_transpose xp = Inr xt" "dims xt = [b, h * w * d, tb_embed_dim self]"
    by blast
  from generate_positional_encoding_ok [OF e]
  obtain pe where pe: "generate_positional_encoding ops h w d (tb_embed_dim self) = Inr pe"
    "dims pe = [1, h * w * d, tb_embed_dim self]" by blast
  from tensor_add_batch [OF xt(2) pe(2)]
  obtain t1 where t1: "tensor_add ops xt pe = Inr t1" "dims t1 = [b, h * w * d, tb_embed_dim self]"
    by blast
  from attn_forward_ok [OF t1(2)]
  obtain x2 where x2: "attn_forward self t1 = Inr x2" "dims x2 = dims t1" by blast
  define t2 where "t2 = \<lparr> dims = dims t1, elems = (\<lambda>i. fadd (rnd ops) (elems t1 i) (elems x2 i)) \<rparr>"
  have t2: "tensor_add ops t1 x2 = Inr t2" "dims t2 = [b, h * w * d, tb_embed_dim self]"
    using x2(2) t1(2) by (simp_all add: tensor_add_same t2_def)
  from ffn_forward_ok [OF t2(2)]
  obtain f where f: "ffn_forward self t2 = Inr f" "dims f = dims t2" by blast
  define t3 where "t3 = \<lparr> dims = dims t2, elems = (\<lambda>i. fadd (rnd ops) (elems t2 i) (elems f i)) \<rparr>"
  have t3: "tensor_add ops t2 f = Inr t3" "dims t3 = [b, h * w * d, tb_embed_dim self]"
    using f(2) t2(2) by (simp_all add: tensor_add_same t3_def)
  from transpose_view_ok [OF t3(2) b p]
  obtain t4 where t4: "transpose_view t3 b h w d = Inr t4" "dims t4 = [b, tb_embed_dim self, h, w, d]"
    by blast
  have xo: "Conv3d_forward (tb_embed_dim self) (tb_in_channels self) (deproj_output self) t4
      = Inr \<lparr> dims = [b, tb_in_channels self, h, w, d], elems = deproj_output self t4 \<rparr>"
    by (rule Conv3d_forward_ok [OF t4(2) p])
  show ?thesis
    by (simp add: projected_output_def xp xt pe t1 x2 t2 f t3 t4 xo x)
qed

lemma fadd_zero_product:
  assumes "r 0 = Finite 0" and "\<And>a. v = Finite a \<Longrightarrow> r a = Finite a"
  shows "fadd r v (fmul r (Finite 0) u) = (if is_finite u then v else NaN)"
  using assms by (cases u; cases v) simp_all

lemma residual_zero:
  assumes "dims y = dims x" and "rnd ops 0 = Finite 0"
    and "\<forall>idx a. elems x idx = Finite a \<longrightarrow> rnd ops a = Finite a"
  shows "tensor_add ops x (tensor_scale ops (Finite 0) y)
       = Inr \<lparr> dims = dims x,
               elems = (\<lambda>idx. if is_finite (elems y idx) then elems x idx else NaN) \<rparr>"
  using assms by (simp add: tensor_add_def tensor_scale_def fadd_zero_product)

text \<open>
  C3. The block computes in float32. For every block that the constructor can build (at
  least one input channel, a positive embedding dimension that the number of heads
  divides) and every input feature grid \<open>x\<close> that it accepts (a 5-D tensor of float32
  values with a non-empty batch, \<open>in_channels\<close> channels and non-empty spatial axes;
  the embedding dimension a multiple of 3 with an even third, as the positional encoding
  needs), if \<open>gamma\<close> is 0 then \<open>forward\<close> returns a tensor of the shape of \<open>x\<close>
  whose entry is the entry of \<open>x\<close> wherever the projected output \<open>x_out\<close> is finite,
  and NaN wherever \<open>x_out\<close> is infinite or NaN; so it returns \<open>x\<close> itself when
  \<open>x_out\<close> is finite everywhere. The constructor sets \<open>gamma\<close> to the float32 value
  of 0.1.
\<close>

theorem transformer_gamma_zero:
  assumes g: "gamma self = Finite 0"
    and c: "1 \<le> tb_in_channels self" "1 \<le> tb_embed_dim self"
      "1 \<le> tb_num_heads self" "tb_num_heads self dvd tb_embed_dim self"
    and x: "dims x = [b, tb_in_channels self, h, w, d]"
    and p: "1 \<le> b" "1 \<le> h" "1 \<le> w" "1 \<le> d"
    and e: "3 dvd tb_embed_dim self" "even (tb_embed_dim self div 3)"
    and r0: "rnd ops 0 = Finite 0"
    and rx: "\<forall>idx a. elems x idx = Finite a \<longrightarrow> rnd ops a = Finite a"
  shows "\<exists>x_out. projected_output ops self x = Inr x_out \<and> dims x_out = dims x
           \<and> transformer_forward ops self x
               = Inr \<lparr> dims = dims x,
                       elems = (\<lambda>idx. if is_finite (elems x_out idx) then elems x idx
                                      else NaN) \<rparr>
           \<and> ((\<forall>idx. is_finite (elems x_out idx)) \<longrightarrow> transformer_forward ops self x = Inr x)
           \<and> gamma (TransformerBottleneck3D_init ops in_chs embed_dim num_heads hidden_dim
                      pr att ff dp) = rnd ops (1 / 10)"
proof -
  from projected_output_ok [OF x p e]
  obtain x_out where xo: "projected_output ops self x = Inr x_out" "dims x_out = dims x"
    by blast
  have r: "transformer_forward ops self x
         = Inr \<lparr> dims = dims x,
                 elems = (\<lambda>idx. if is_finite (elems x_out idx) then elems x idx else NaN) \<rparr>"
    using residual_zero [OF xo(2) r0 rx]
    by (simp add: transformer_forward_def xo(1) g)
  have "transformer_forward ops self x = Inr x" if "\<forall>idx. is_finite (elems x_out idx)"
    using r that by simp
  with xo r show ?thesis
    by (auto simp: TransformerBottleneck3D_init_def)
qed

theorem transformer_gamma_zero_witness:
  "gamma ((TransformerBottleneck3D_init range_ops 80 96 4 192 (\<lambda>t i. Finite 1) (\<lambda>t i. Finite 2)
             (\<lambda>t i. Finite 3) (\<lambda>t i. Finite 4))\<lparr>gamma := Finite 0\<rparr>) = Finite 0
   \<and> dims \<lparr> dims = [1, 80, 2, 3, 4], elems = (\<lambda>i. Finite 5) \<rparr>
       = [1, tb_in_channels ((TransformerBottleneck3D_init range_ops 80 96 4 192
             (\<lambda>t i. Finite 1) (\<lambda>t i. Finite 2) (\<lambda>t i. Finite 3) (\<lambda>t i. Finite 4))
             \<lparr>gamma := Finite 0\<rparr>), 2, 3, 4]
   \<and> (4::nat) dvd 96 \<and> (3::nat) dvd 96 \<and> even ((96::nat) div 3)
   \<and> rnd range_ops 0 = Finite 0 \<and> rnd range_ops 5 = Finite 5
   \<and> transformer_forward range_ops
        ((TransformerBottleneck3D_init range_ops 80 96 4 192 (\<lambda>t i. Finite 1) (\<lambda>t i. Finite 2)
             (\<lambda>t i. Finite 3) (\<lambda>t i. Finite 4))\<lparr>gamma := Finite 0\<rparr>)
        \<lparr> dims = [1, 80, 2, 3, 4], elems = (\<lambda>i. Finite 5) \<rparr>
       = Inr \<lparr> dims = [1, 80, 2, 3, 4], elems = (\<lambda>i. Finite 5) \<rparr>
   \<and> gamma (TransformerBottleneck3D_init range_ops 80 96 4 192 (\<lambda>t i. Finite 1)
             (\<lambda>t i. Finite 2) (\<lambda>t i. Finite 3) (\<lambda>t i. Finite 4)) = Finite (1 / 10)"
proof -
  let ?self = "(TransformerBottleneck3D_init range_ops 80 96 4 192 (\<lambda>t i. Finite 1)
     (\<lambda>t i. Finite 2) (\<lambda>t i. Finite 3) (\<lambda>t i. Finite 4))\<lparr>gamma := Finite 0\<rparr>"
  let ?x = "\<lparr> dims = [1, 80, 2, 3, 4], elems = (\<lambda>i. Finite 5) \<rparr>"
  have r0: "rnd range_ops 0 = Finite 0" and r5: "rnd range_ops 5 = Finite 5"
    and rg: "rnd range_ops (1 / 10) = Finite (1 / 10)"
    by (simp_all add: range_ops_def overflow_rnd_def)
  have fin: "\<And>x_out. projected_output range_ops ?self ?x = Inr x_out
      \<Longrightarrow> \<forall>idx. is_finite (elems x_out idx)"
    by (auto simp: projected_output_def Conv3d_forward_def TransformerBottleneck3D_init_def
        flatten_transpose_def generate_positional_encoding_def tensor_add_def attn_forward_def
        ffn_forward_def transpose_view_def Let_def split: sum.splits if_splits option.splits)
  from transformer_gamma_zero [of ?self ?x 1 2 3 4 range_ops 80 96 4 192
      "\<lambda>t i. Finite 1" "\<lambda>t i. Finite 2" "\<lambda>t i. Finite 3" "\<lambda>t i. Finite 4"]
  obtain x_out where xo: "projected_output range_ops ?self ?x = Inr x_out"
      "(\<forall>idx. is_finite (elems x_out idx)) \<longrightarrow> transformer_forward range_ops ?self ?x = Inr ?x"
      "gamma (TransformerBottleneck3D_init range_ops 80 96 4 192 (\<lambda>t i. Finite 1)
             (\<lambda>t i. Finite 2) (\<lambda>t i. Finite 3) (\<lambda>t i. Finite 4)) = rnd range_ops (1 / 10)"
    using r0 r5 by (auto simp: TransformerBottleneck3D_init_def)
  from fin [OF xo(1)] xo(2) have "transformer_forward range_ops ?self ?x = Inr ?x" by blast
  then show ?thesis
    using r0 r5 rg xo(3) by (simp add: TransformerBottleneck3D_init_def)
qed

lemma fadd_not_finite_left: "\<not> is_finite a \<Longrightarrow> \<not> is_finite (fadd r a b)"
  by (cases a; cases b) simp_all

lemma fadd_not_finite_right: "\<not> is_finite b \<Longrightarrow> \<not> is_finite (fadd r a b)"
  by (cases a; cases b) simp_all

lemma fmul_one_not_finite: "\<not> is_finite b \<Longrightarrow> \<not> is_finite (fmul r (Finite 1) b)"
  by (cases b) simp_all

lemma fadd_zero_not_finite:
  "\<not> is_finite u \<Longrightarrow> fadd r v (fmul r (Finite 0) u) = NaN"
  by (cases u; cases v) simp_all

lemma proj_overflow:
  "conv_pointwise range_ops (\<lambda>oc ci. 4) (\<lambda>oc. 0) (Suc 0) large_input [n, oc, i, j, k] = PInf"
  by (simp add: conv_pointwise_def large_input_def range_ops_def overflow_rnd_def)

lemma deproj_not_finite:
  assumes "\<forall>ci. \<not> is_finite (elems t [n, ci, i, j, k])"
  shows "\<not> is_finite (conv_pointwise range_ops (\<lambda>oc ci. 1) (\<lambda>oc. 0) (Suc m) t [n, oc, i, j, k])"
  using assms
  by (simp add: conv_pointwise_def fadd_not_finite_right fmul_one_not_finite)

text \<open>
  The entry \<open>2^127\<close> times the weight 4 overflows in the projection, the tokens stay
  infinite or NaN whatever the attention layer and the feed-forward network add, and
  the product of \<open>gamma = 0\<close> and the projected output is NaN: \<open>forward\<close> returns NaN
  where the input holds \<open>2^127\<close>.
\<close>

theorem gamma_zero_overflow_not_identity:
  "\<forall>att ff. \<exists>y. transformer_forward range_ops (overflow_block att ff) large_input = Inr y
      \<and> gamma (overflow_block att ff) = Finite 0
      \<and> elems large_input [0, 0, 0, 0, 0] = Finite (2 ^ 127)
      \<and> elems y [0, 0, 0, 0, 0] = NaN
      \<and> y \<noteq> large_input"
proof (intro allI)
  fix att ff
  let ?self = "overflow_block att ff"
  have s: "tb_in_channels ?self = 1" "tb_embed_dim ?self = 6" "gamma ?self = Finite 0"
    "proj_output ?self = conv_pointwise range_ops (\<lambda>oc ci. 4) (\<lambda>oc. 0) 1"
    "deproj_output ?self = conv_pointwise range_ops (\<lambda>oc ci. 1) (\<lambda>oc. 0) 6"
    by (simp_all add: overflow_block_def TransformerBottleneck3D_init_def)
  define xp where "xp = \<lparr> dims = [1, 6, 1, 1, 1], elems = proj_output ?self large_input \<rparr>"
  have xp: "Conv3d_forward 1 6 (proj_output ?self) large_input = Inr xp"
    by (simp add: Conv3d_forward_def large_input_def xp_def)
  have dxp: "dims xp = [1, 6, 1, 1, 1]"
    by (simp add: xp_def)
  have "\<exists>xt. flatten_transpose xp = Inr xt \<and> dims xt = [1, 1, 6]
      \<and> (\<forall>c. elems xt [0, 0, c] = PInf)"
    by (simp add: flatten_transpose_def xp_def s(4) proj_overflow)
  then obtain xt where xt: "flatten_transpose xp = Inr xt" "dims xt = [1, 1, 6]"
    and p1: "\<And>c. elems xt [0, 0, c] = PInf" by blast
  have "\<exists>pe. generate_positional_encoding range_ops 1 1 1 6 = Inr pe \<and> dims pe = [1, 1, 6]"
    by (simp add: generate_positional_encoding_def Let_def)
  then obtain pe where pe: "generate_positional_encoding range_ops 1 1 1 6 = Inr pe"
    "dims pe = [1, 1, 6]" by blast
  define t1 where "t1 = \<lparr> dims = [1, 1, 6],
      elems = (\<lambda>i. fadd (rnd range_ops) (elems xt i) (elems pe i)) \<rparr>"
  have t1: "tensor_add range_ops xt pe = Inr t1"
    by (simp add: tensor_add_def xt pe t1_def)
  have n1: "\<And>c. \<not> is_finite (elems t1 [0, 0, c])"
    by (simp add: t1_def p1 fadd_not_finite_left)
  define x2 where "x2 = \<lparr> dims = [1, 1, 6], elems = att t1 \<rparr>"
  have x2: "attn_forward ?self t1 = Inr x2"
    by (simp add: attn_forward_def t1_def x2_def overflow_block_def
        TransformerBottleneck3D_init_def)
  define t2 where "t2 = \<lparr> dims = [1, 1, 6],
      elems = (\<lambda>i. fadd (rnd range_ops) (elems t1 i) (elems x2 i)) \<rparr>"
  have t2: "tensor_add range_ops t1 x2 = Inr t2"
    by (simp add: tensor_add_def t1_def x2_def t2_def)
  have n2: "\<And>c. \<not> is_finite (elems t2 [0, 0, c])"
    using n1 by (simp add: t2_def fadd_not_finite_left)
  define f where "f = \<lparr> dims = [1, 1, 6], elems = ff t2 \<rparr>"
  have f: "ffn_forward ?self t2 = Inr f"
    by (simp add: ffn_forward_def t2_def f_def overflow_block_def
        TransformerBottleneck3D_init_def)
  define t3 where "t3 = \<lparr> dims = [1, 1, 6],
      elems = (\<lambda>i. fadd (rnd range_ops) (elems t2 i) (elems f i)) \<rparr>"
  have t3: "tensor_add range_ops t2 f = Inr t3"
    by (simp add: tensor_add_def t2_def f_def t3_def)
  have n3: "\<And>c. \<not> is_finite (elems t3 [0, 0, c])"
    using n2 by (simp add: t3_def fadd_not_finite_left)
  have "\<exists>t4. transpose_view t3 1 1 1 1 = Inr t4 \<and> dims t4 = [1, 6, 1, 1, 1]
      \<and> (\<forall>c. elems t4 [0, c, 0, 0, 0] = elems t3 [0, 0, c])"
    by (simp add: transpose_view_def t3_def)
  then obtain t4 where t4: "transpose_view t3 1 1 1 1 = Inr t4" "dims t4 = [1, 6, 1, 1, 1]"
    and e4: "\<And>c. elems t4 [0, c, 0, 0, 0] = elems t3 [0, 0, c]" by blast
  have n4: "\<And>c. \<not> is_finite (elems t4 [0, c, 0, 0, 0])"
    using n3 by (simp add: e4)
  define xo where "xo = \<lparr> dims = [1, 1, 1, 1, 1], elems = deproj_output ?self t4 \<rparr>"
  have xo: "Conv3d_forward 6 1 (deproj_output ?self) t4 = Inr xo"
    by (simp add: Conv3d_forward_def t4 xo_def)
  have po: "projected_output range_ops ?self large_input = Inr xo"
    by (simp add: projected_output_def s(1,2) xp dxp xt pe t1 x2 t2 f t3 t4 xo
        del: One_nat_def)
  have nf: "\<not> is_finite (elems xo [0, 0, 0, 0, 0])"
    unfolding xo_def s(5) using deproj_not_finite [of t4 0 0 0 0 5 0] n4
    by (simp add: eval_nat_numeral)
  have dx: "dims xo = dims large_input"
    by (simp add: xo_def large_input_def)
  define y where "y = \<lparr> dims = dims large_input,
      elems = (\<lambda>i. fadd (rnd range_ops) (elems large_input i)
                      (fmul (rnd range_ops) (Finite 0) (elems xo i))) \<rparr>"
  have y: "transformer_forward range_ops ?self large_input = Inr y"
    by (simp add: transformer_forward_def po s(3) tensor_add_def tensor_scale_def dx y_def)
  have e: "elems y [0, 0, 0, 0, 0] = NaN"
    using nf by (simp add: y_def fadd_zero_not_finite)
  have l: "elems large_input [0, 0, 0, 0, 0] = Finite (2 ^ 127)"
    by (simp add: large_input_def)
  from e l have "y \<noteq> large_input" by auto
  with y s(3) e l
  show "\<exists>y. transformer_forward range_ops ?self large_input = Inr y
      \<and> gamma ?self = Finite 0
      \<and> elems large_input [0, 0, 0, 0, 0] = Finite (2 ^ 127)
      \<and> elems y [0, 0, 0, 0, 0] = NaN
      \<and> y \<noteq> large_input" by blast
qed

section \<open>Loading the trained state\<close>

lemma copy_params_eq:
  "no_empty_scalar_source own sd \<Longrightarrow>
     copy_params own sd = (loaded own sd, size_mismatches own sd, None)"
proof (induction own)
  case Nil
  then show ?case by (simp add: loaded_def size_mismatches_def)
next
  case (Cons p own)
  obtain k shp v where p: "p = (k, shp, v)" by (cases p)
  from Cons.prems have rest: "no_empty_scalar_source own sd"
    by (simp add: no_empty_scalar_source_def)
  note IH = Cons.IH [OF rest]
  show ?case
  proof (cases "map_of sd k")
    case None
    then show ?thesis using IH by (simp add: p loaded_def size_mismatches_def)
  next
    case (Some q)
    obtain shp' v' where q: "q = (shp', v')" by (cases q)
    from Cons.prems Some q have ne: "\<not> (shp = [] \<and> shp' = [0])"
      by (simp add: no_empty_scalar_source_def p)
    show ?thesis
      using IH ne Some q
      by (auto simp: p loaded_def size_mismatches_def fits_def Let_def)
  qed
qed


text \<open>
  C8, as the code has it. (No 1-D tensor without entries being offered to a parameter
  of shape \<open>[]\<close>.) \<open>new_load_trained_state_of_model\<close> raises \<open>RuntimeError\<close> exactly
  when a name is missing or unexpected or a tensor does not fit its parameter;
  \<open>load_trained_state_of_model\<close>, which always loads with \<^verbatim>\<open>strict=False\<close>, raises
  \<open>RuntimeError\<close> exactly when a tensor does not fit its parameter, whatever the names
  (a 1-D tensor fits a parameter of shape \<open>[]\<close>). In every case, also when the error is
  raised, the model is left with every parameter replaced for which the dictionary has
  a fitting tensor.
\<close>

theorem load_trained_state_modes:
  assumes "no_empty_scalar_source own sd"
  shows "load_trained_state_of_model own sd
           = (loaded own sd, if size_mismatches own sd = [] then None else Some RuntimeError)
       \<and> new_load_trained_state_of_model own sd
           = (loaded own sd,
              if size_mismatches own sd = [] \<and> missing_keys own sd = []
                 \<and> unexpected_keys own sd = []
              then None else Some RuntimeError)"
  using copy_params_eq [OF assms]
  by (simp add: load_trained_state_of_model_def new_load_trained_state_of_model_def
      load_state_dict_def)

theorem load_trained_state_modes_witness:
  "no_empty_scalar_source [(''proj.weight'', [2], [1, 2]), (''gamma'', [], [3 :: nat])]
       [(''proj.weight'', [3], [7, 8, 9]), (''gamma'', [1], [5])]
   \<and> size_mismatches [(''proj.weight'', [2], [1, 2]), (''gamma'', [], [3 :: nat])]
       [(''proj.weight'', [3], [7, 8, 9]), (''gamma'', [1], [5])] = [''proj.weight'']
   \<and> load_trained_state_of_model [(''proj.weight'', [2], [1, 2]), (''gamma'', [], [3 :: nat])]
       [(''proj.weight'', [3], [7, 8, 9]), (''gamma'', [1], [5])]
       = ([(''proj.weight'', [2], [1, 2]), (''gamma'', [], [5])], Some RuntimeError)
   \<and> new_load_trained_state_of_model [(''proj.weight'', [2], [1, 2]), (''gamma'', [], [3 :: nat])]
       [(''proj.weight'', [3], [7, 8, 9]), (''gamma'', [1], [5])]
       = ([(''proj.weight'', [2], [1, 2]), (''gamma'', [], [5])], Some RuntimeError)"
  using load_trained_state_modes [of "[(''proj.weight'', [2], [1, 2]), (''gamma'', [], [3 :: nat])]"
      "[(''proj.weight'', [3], [7, 8, 9]), (''gamma'', [1], [5])]"]
  by (simp add: no_empty_scalar_source_def size_mismatches_def missing_keys_def
      unexpected_keys_def loaded_def fits_def)

text \<open>
  C8 as stated fails. The dictionary below lacks the parameter \<open>gamma\<close> and has the
  unknown name \<open>extra\<close>. \<open>new_load_trained_state_of_model\<close> raises \<open>RuntimeError\<close>, yet
  \<open>proj.weight\<close> has been loaded into the model: the load is partial.
  \<open>load_trained_state_of_model\<close> raises nothing and loads \<open>proj.weight\<close> alone.
\<close>

theorem load_is_partial_on_name_mismatch:
  "missing_keys [(''proj.weight'', [2], [1, 2]), (''gamma'', [], [3 :: nat])]
       [(''proj.weight'', [2], [7, 8]), (''extra'', [1], [9])] = [''gamma'']
   \<and> unexpected_keys [(''proj.weight'', [2], [1, 2]), (''gamma'', [], [3 :: nat])]
       [(''proj.weight'', [2], [7, 8]), (''extra'', [1], [9])] = [''extra'']
   \<and> new_load_trained_state_of_model [(''proj.weight'', [2], [1, 2]), (''gamma'', [], [3 :: nat])]
       [(''proj.weight'', [2], [7, 8]), (''extra'', [1], [9])]
       = ([(''proj.weight'', [2], [7, 8]), (''gamma'', [], [3])], Some RuntimeError)
   \<and> load_trained_state_of_model [(''proj.weight'', [2], [1, 2]), (''gamma'', [], [3 :: nat])]
       [(''proj.weight'', [2], [7, 8]), (''extra'', [1], [9])]
       = ([(''proj.weight'', [2], [7, 8]), (''gamma'', [], [3])], None)"
  by (simp add: missing_keys_def unexpected_keys_def load_trained_state_of_model_def
      new_load_trained_state_of_model_def load_state_dict_def)

end
